theory Spec2Isabelle
  imports Complex_Main
begin

section \<open>Data model of \<open>src/main.ts\<close> (class \<open>InfiniteRacer\<close>)\<close>

text \<open>
  JavaScript numbers are modelled as \<^typ>\<open>real\<close>: the arithmetic of the source is read
  exactly, without the rounding of binary64; where a claim depends on the rounding (the
  additions of line 96) it is modelled by \<open>binary64\<close>. \<open>Math.sin\<close>, \<open>Math.cos\<close> and
  \<open>Math.sqrt\<close> are the real functions. The results of \<open>Math.random()\<close> and of
  \<open>Date.now()\<close> are inputs of a frame (record \<open>frame_env\<close>).
\<close>

record Vector3 =
  vx :: real
  vy :: real
  vz :: real

definition vec :: "real \<Rightarrow> real \<Rightarrow> real \<Rightarrow> Vector3" where
  "vec a b c = \<lparr>vx = a, vy = b, vz = c\<rparr>"

text \<open>\<open>Vector3.add\<close>, \<open>Vector3.multiplyScalar\<close> and \<open>Vector3.lerp\<close> of three.js.\<close>

definition add :: "Vector3 \<Rightarrow> Vector3 \<Rightarrow> Vector3" where
  "add a b = \<lparr>vx = vx a + vx b, vy = vy a + vy b, vz = vz a + vz b\<rparr>"

definition multiplyScalar :: "Vector3 \<Rightarrow> real \<Rightarrow> Vector3" where
  "multiplyScalar a s = \<lparr>vx = vx a * s, vy = vy a * s, vz = vz a * s\<rparr>"

definition lerp :: "Vector3 \<Rightarrow> Vector3 \<Rightarrow> real \<Rightarrow> Vector3" where
  "lerp a v alpha =
     \<lparr>vx = vx a + (vx v - vx a) * alpha,
      vy = vy a + (vy v - vy a) * alpha,
      vz = vz a + (vz v - vz a) * alpha\<rparr>"

text \<open>
  \<open>THREE.Object3D\<close>: the car (a \<open>THREE.Group\<close>) and the trees. \<open>rotation\<close> holds the
  three Euler angles; the heading of the car is \<open>vy (rotation c)\<close>.
  A flame of the boost effect is a \<open>THREE.Mesh\<close> with a material of its own
  (\<open>flameMaterial.clone()\<close>), of which only the opacity changes.
\<close>

record Object3D =
  position :: Vector3
  rotation :: Vector3
  scale :: Vector3

record Mesh = Object3D +
  opacity :: real

text \<open>
  The fields of \<open>InfiniteRacer\<close> that the frame step and the key handlers read or
  write. \<open>car\<close> is \<open>None\<close> until the loader's callback has run. The orientation of
  the camera is represented by the point last passed to \<open>camera.lookAt\<close>.
\<close>

record InfiniteRacer =
  car :: "Object3D option"
  cameraPosition :: Vector3
  cameraLookAt :: Vector3
  orbitEnabled :: bool
  orbitTarget :: Vector3
  speed :: real
  carRotation :: real
  isOrbitMode :: bool
  isBoosting :: bool
  boostParticles :: "Mesh list"
  objects :: "Object3D list"
  isVibrating :: bool
  vibrationTime :: int
  isAccelerating :: bool
  isBraking :: bool
  isTurningLeft :: bool
  isTurningRight :: bool

text \<open>
  What a frame reads from outside the class: the two \<open>Date.now()\<close> calls
  (\<open>startVibration\<close>, then the vibration block), the \<open>Math.random()\<close> calls in the
  order of the source (four in \<open>createBoostEffect\<close>, two in the vibration block), and
  \<open>OrbitControls.update\<close> of three.js, which is not code of this repository: it is a
  parameter, from the orbit target and the camera position to the new camera position.
\<close>

record frame_env =
  nowStart :: int
  nowVibration :: int
  randLeftX :: real
  randLeftY :: real
  randRightX :: real
  randRightY :: real
  randVibX :: real
  randVibY :: real
  orbitControlsUpdate :: "Vector3 \<Rightarrow> Vector3 \<Rightarrow> Vector3"

subsection \<open>Constants (private fields that are never reassigned)\<close>

definition maxSpeed :: real where "maxSpeed = 3"
definition turnSpeed :: real where "turnSpeed = 0.0125"
definition normalMaxSpeed :: real where "normalMaxSpeed = 2"
definition boostMaxSpeed :: real where "boostMaxSpeed = 10"
definition acceleration :: real where "acceleration = 0.1"
definition spawnPoint :: Vector3 where "spawnPoint = vec 0 0.5 0"
definition boundarySize :: real where "boundarySize = 500"
definition vibrationIntensity :: real where "vibrationIntensity = 0.1"
definition vibrationDuration :: int where "vibrationDuration = 1000"

section \<open>The operations\<close>

subsection \<open>\<open>checkCollision\<close> (lines 70-82)\<close>

definition checkCollision :: "Vector3 \<Rightarrow> Vector3 \<Rightarrow> bool" where
  "checkCollision carPosition treePosition =
     (let treeRadius = 1.5;
          carRadius = 1.0;
          dx = vx carPosition - vx treePosition;
          dz = vz carPosition - vz treePosition;
          distance = sqrt (dx * dx + dz * dz)
      in distance < treeRadius + carRadius)"

subsection \<open>\<open>createBoostEffect\<close> (lines 695-761)\<close>

definition leftFlame :: "frame_env \<Rightarrow> Object3D \<Rightarrow> Mesh" where
  "leftFlame env c =
     (let backOffsetLeft = 1.2;
          sideOffsetLeft = 0.4;
          heightOffset = 0.3;
          flickerMin = 0.8;
          flickerMax = 0.4;
          ry = vy (rotation c);
          leftOffset = vec (- sin ry * backOffsetLeft - cos ry * sideOffsetLeft)
                           heightOffset
                           (- cos ry * backOffsetLeft + sin ry * sideOffsetLeft)
      in \<lparr>position = add (position c) leftOffset,
          rotation = vec pi ry 0,
          scale = vec (flickerMin + randLeftX env * flickerMax)
                      (flickerMin + randLeftY env * flickerMax) 1,
          opacity = 0.8\<rparr>)"

definition rightFlame :: "frame_env \<Rightarrow> Object3D \<Rightarrow> Mesh" where
  "rightFlame env c =
     (let backOffsetRight = 1.0;
          sideOffsetRight = 0.35;
          heightOffset = 0.3;
          flickerMin = 0.8;
          flickerMax = 0.4;
          ry = vy (rotation c);
          rightOffset = vec (- sin ry * backOffsetRight + cos ry * sideOffsetRight)
                            heightOffset
                            (- cos ry * backOffsetRight - sin ry * sideOffsetRight)
      in \<lparr>position = add (position c) rightOffset,
          rotation = vec pi ry 0,
          scale = vec (flickerMin + randRightX env * flickerMax)
                      (flickerMin + randRightY env * flickerMax) 1,
          opacity = 0.8\<rparr>)"

text \<open>The loop \<open>while (this.boostParticles.length > 12) this.boostParticles.shift()\<close>.\<close>

function removeOldParticles :: "Mesh list \<Rightarrow> Mesh list" where
  "removeOldParticles ps =
     (if length ps > 12 then removeOldParticles (tl ps) else ps)"
  by pat_completeness auto
termination
  by (relation "measure length") auto

declare removeOldParticles.simps [simp del]

definition createBoostEffect :: "frame_env \<Rightarrow> Object3D \<Rightarrow> InfiniteRacer \<Rightarrow> InfiniteRacer" where
  "createBoostEffect env c st =
     st\<lparr>boostParticles :=
          removeOldParticles (boostParticles st @ [leftFlame env c, rightFlame env c])\<rparr>"

subsection \<open>\<open>startVibration\<close> and \<open>respawnCar\<close> (lines 763-773)\<close>

definition startVibration :: "frame_env \<Rightarrow> InfiniteRacer \<Rightarrow> InfiniteRacer" where
  "startVibration env st = st\<lparr>isVibrating := True, vibrationTime := nowStart env\<rparr>"

definition respawnCar :: "Object3D \<Rightarrow> InfiniteRacer \<Rightarrow> InfiniteRacer" where
  "respawnCar c st =
     st\<lparr>car := Some (c\<lparr>position := spawnPoint, rotation := vec 0 0 0\<rparr>),
        speed := 0,
        isVibrating := False\<rparr>"

subsection \<open>\<open>updateCarMovement\<close> (lines 85-194)\<close>

text \<open>
  The body of \<open>updateCarMovement\<close> is one straight-line sequence of blocks; each block
  is a definition here, in the order of the source, and \<open>updateCarMovement\<close> composes
  them. Every block is entered with the car present (line 86 returns otherwise), so it
  takes the state and reads the car with \<open>the\<close> only under that guard.
\<close>

text \<open>Lines 92-111: the speed update, with the boost effect inside the accelerating branch.\<close>

definition currentMaxSpeed :: "InfiniteRacer \<Rightarrow> real" where
  "currentMaxSpeed st = (if isBoosting st then boostMaxSpeed else normalMaxSpeed)"

definition updateSpeed :: "frame_env \<Rightarrow> Object3D \<Rightarrow> InfiniteRacer \<Rightarrow> InfiniteRacer" where
  "updateSpeed env c st =
     (if isAccelerating st then
        (let st1 = st\<lparr>speed := min (speed st + acceleration) (currentMaxSpeed st)\<rparr>
         in if isBoosting st1 \<and> speed st1 > normalMaxSpeed
            then createBoostEffect env c st1 else st1)
      else if isBraking st then
        st\<lparr>speed := max (speed st - acceleration * 2) (- currentMaxSpeed st / 2)\<rparr>
      else if \<bar>speed st\<bar> > 0.01 then st\<lparr>speed := speed st * 0.95\<rparr>
      else st\<lparr>speed := 0\<rparr>)"

text \<open>Lines 113-119: turning. Both flags may be held; the two updates run in sequence.\<close>

definition turnLeft :: "real \<Rightarrow> Object3D \<Rightarrow> Object3D" where
  "turnLeft s c =
     c\<lparr>rotation := (rotation c)\<lparr>vy := vy (rotation c) + turnSpeed * (\<bar>s\<bar> / maxSpeed)\<rparr>\<rparr>"

definition turnRight :: "real \<Rightarrow> Object3D \<Rightarrow> Object3D" where
  "turnRight s c =
     c\<lparr>rotation := (rotation c)\<lparr>vy := vy (rotation c) - turnSpeed * (\<bar>s\<bar> / maxSpeed)\<rparr>\<rparr>"

definition updateRotation :: "InfiniteRacer \<Rightarrow> Object3D \<Rightarrow> Object3D" where
  "updateRotation st c =
     (let c1 = (if isTurningLeft st then turnLeft (speed st) c else c)
      in if isTurningRight st then turnRight (speed st) c1 else c1)"

text \<open>Lines 121-124: the translation along the heading.\<close>

definition moveForward :: "InfiniteRacer \<Rightarrow> Object3D \<Rightarrow> Object3D" where
  "moveForward st c =
     (let moveDistance = speed st * 0.16;
          ry = vy (rotation c);
          p = position c;
          p1 = p\<lparr>vx := vx p + sin ry * moveDistance\<rparr>;
          p2 = p1\<lparr>vz := vz p1 + cos ry * moveDistance\<rparr>
      in c\<lparr>position := p2\<rparr>)"

text \<open>Lines 126-150: the camera, by mode.\<close>

definition chaseOffset :: "real \<Rightarrow> Vector3" where
  "chaseOffset ry = vec (- sin ry * 15) 7 (- cos ry * 15)"

definition updateCameraByMode :: "frame_env \<Rightarrow> Object3D \<Rightarrow> InfiniteRacer \<Rightarrow> InfiniteRacer" where
  "updateCameraByMode env c st =
     (if \<not> isOrbitMode st then
        (let cameraOffset = chaseOffset (vy (rotation c))
         in st\<lparr>cameraPosition := lerp (cameraPosition st) (add (position c) cameraOffset) 0.1,
               cameraLookAt := vec (vx (position c) + sin (vy (rotation c)) * 10)
                                   (vy (position c))
                                   (vz (position c) + cos (vy (rotation c)) * 10),
               orbitEnabled := False\<rparr>)
      else
        st\<lparr>orbitEnabled := True,
           orbitTarget := position c,
           cameraPosition := orbitControlsUpdate env (position c) (cameraPosition st),
           cameraLookAt := position c\<rparr>)"

text \<open>
  Lines 152-162: the \<open>filter\<close> over the particles. The callback first fades and shrinks
  the particle, then drops it when its opacity is not positive any more.
\<close>

definition fade :: "Mesh \<Rightarrow> Mesh" where
  "fade p = p\<lparr>opacity := opacity p - 0.15, scale := multiplyScalar (scale p) 0.95\<rparr>"

fun cleanupParticles :: "Mesh list \<Rightarrow> Mesh list" where
  "cleanupParticles [] = []"
| "cleanupParticles (particle # ps) =
     (let p' = fade particle
      in if opacity p' \<le> 0 then cleanupParticles ps else p' # cleanupParticles ps)"

text \<open>Lines 164-169: the boundary test.\<close>

definition outOfBounds :: "Vector3 \<Rightarrow> bool" where
  "outOfBounds p \<longleftrightarrow> \<bar>vx p\<bar> > boundarySize \<or> \<bar>vz p\<bar> > boundarySize"

text \<open>
  Lines 171-182: the loop over \<open>this.objects\<close>. The first object that collides triggers
  the response and the \<open>break\<close>; the rest of the list is not looked at.
\<close>

definition collisionResponse ::
  "frame_env \<Rightarrow> Vector3 \<Rightarrow> Object3D \<Rightarrow> InfiniteRacer \<Rightarrow> InfiniteRacer" where
  "collisionResponse env previousPosition c st =
     startVibration env
       (st\<lparr>car := Some (c\<lparr>position := previousPosition\<rparr>), speed := - speed st * 0.5\<rparr>)"

fun checkCollisions ::
  "frame_env \<Rightarrow> Vector3 \<Rightarrow> Object3D \<Rightarrow> Object3D list \<Rightarrow> InfiniteRacer \<Rightarrow> InfiniteRacer" where
  "checkCollisions env previousPosition c [] st = st"
| "checkCollisions env previousPosition c (object # os) st =
     (if checkCollision (position c) (position object)
      then collisionResponse env previousPosition c st
      else checkCollisions env previousPosition c os st)"

text \<open>Lines 184-193: the vibration.\<close>

definition handleVibration :: "frame_env \<Rightarrow> InfiniteRacer \<Rightarrow> InfiniteRacer" where
  "handleVibration env st =
     (case car st of
        None \<Rightarrow> st
      | Some c \<Rightarrow>
          if isVibrating st then
            (if nowVibration env - vibrationTime st < vibrationDuration then
               (let p = position c;
                    p1 = p\<lparr>vx := vx p + (randVibX env - 0.5) * vibrationIntensity\<rparr>;
                    p2 = p1\<lparr>vy := vy p1 + (randVibY env - 0.5) * vibrationIntensity\<rparr>
                in st\<lparr>car := Some (c\<lparr>position := p2\<rparr>)\<rparr>)
             else st\<lparr>isVibrating := False\<rparr>)
          else st)"

text \<open>
  The state after lines 89-162, before the boundary test: the speed update, the
  turning, the translation, the camera and the particle clean-up, in this order.
\<close>

definition movedCar :: "frame_env \<Rightarrow> Object3D \<Rightarrow> InfiniteRacer \<Rightarrow> Object3D" where
  "movedCar env c st =
     (let st1 = updateSpeed env c st
      in moveForward st1 (updateRotation st1 c))"

definition beforeBoundary :: "frame_env \<Rightarrow> Object3D \<Rightarrow> InfiniteRacer \<Rightarrow> InfiniteRacer" where
  "beforeBoundary env c st =
     (let st1 = updateSpeed env c st;
          c3 = moveForward st1 (updateRotation st1 c);
          st3 = st1\<lparr>car := Some c3\<rparr>;
          st4 = updateCameraByMode env c3 st3
      in st4\<lparr>boostParticles := cleanupParticles (boostParticles st4)\<rparr>)"

definition updateCarMovement :: "frame_env \<Rightarrow> InfiniteRacer \<Rightarrow> InfiniteRacer" where
  "updateCarMovement env st =
     (case car st of
        None \<Rightarrow> st
      | Some c \<Rightarrow>
          (let previousPosition = position c;
               st5 = beforeBoundary env c st;
               c5 = movedCar env c st
           in if outOfBounds (position c5) then respawnCar c5 st5
              else handleVibration env
                     (checkCollisions env previousPosition c5 (objects st5) st5)))"

subsection \<open>\<open>animate\<close> (lines 562-573)\<close>

text \<open>The renderer draws the scene and changes nothing of the state modelled here.\<close>

definition animate :: "frame_env \<Rightarrow> InfiniteRacer \<Rightarrow> InfiniteRacer" where
  "animate env st =
     (let st1 = updateCarMovement env st
      in if isOrbitMode st1
         then st1\<lparr>cameraPosition := orbitControlsUpdate env (orbitTarget st1) (cameraPosition st1),
                  cameraLookAt := orbitTarget st1\<rparr>
         else st1)"

subsection \<open>The key handlers (lines 226-285) and \<open>toggleCameraMode\<close> (lines 508-529)\<close>

text \<open>
  The argument \<open>key\<close> of \<open>handleKeyDown\<close> and \<open>handleKeyUp\<close> is
  \<open>event.key.toLowerCase()\<close>. In the case \<open>'c'\<close> the handler reads
  \<open>this.car.rotation\<close> with no guard: with the car not loaded yet this raises a
  \<open>TypeError\<close> after the flag has been flipped, and the flipped flag stays.
\<close>

datatype outcome = Returned InfiniteRacer | TypeError InfiniteRacer

fun stateOf :: "outcome \<Rightarrow> InfiniteRacer" where
  "stateOf (Returned st) = st"
| "stateOf (TypeError st) = st"

definition handleKeyDown :: "string \<Rightarrow> InfiniteRacer \<Rightarrow> outcome" where
  "handleKeyDown key st =
     (if key = ''w'' \<or> key = ''arrowup'' then Returned (st\<lparr>isAccelerating := True\<rparr>)
      else if key = ''s'' \<or> key = ''arrowdown'' then Returned (st\<lparr>isBraking := True\<rparr>)
      else if key = ''a'' \<or> key = ''arrowleft'' then Returned (st\<lparr>isTurningLeft := True\<rparr>)
      else if key = ''d'' \<or> key = ''arrowright'' then Returned (st\<lparr>isTurningRight := True\<rparr>)
      else if key = ''c'' then
        (let st1 = st\<lparr>isOrbitMode := \<not> isOrbitMode st\<rparr>
         in if isOrbitMode st1 then
              (case car st1 of
                 None \<Rightarrow> TypeError st1
               | Some c \<Rightarrow>
                   (let currentOffset = chaseOffset (vy (rotation c))
                    in Returned (st1\<lparr>cameraPosition := add (position c) currentOffset,
                                     orbitTarget := position c\<rparr>)))
            else Returned st1)
      else if key = ''shift'' then Returned (st\<lparr>isBoosting := True\<rparr>)
      else Returned st)"

definition handleKeyUp :: "string \<Rightarrow> InfiniteRacer \<Rightarrow> InfiniteRacer" where
  "handleKeyUp key st =
     (if key = ''w'' \<or> key = ''arrowup'' then st\<lparr>isAccelerating := False\<rparr>
      else if key = ''s'' \<or> key = ''arrowdown'' then st\<lparr>isBraking := False\<rparr>
      else if key = ''a'' \<or> key = ''arrowleft'' then st\<lparr>isTurningLeft := False\<rparr>
      else if key = ''d'' \<or> key = ''arrowright'' then st\<lparr>isTurningRight := False\<rparr>
      else if key = ''shift'' then st\<lparr>isBoosting := False\<rparr>
      else st)"

text \<open>
  \<open>toggleCameraMode\<close> takes \<open>event.key\<close> as it is. No listener is registered for it
  (\<open>initEventListeners\<close> registers \<open>handleKeyDown\<close>, \<open>handleKeyUp\<close> and the menu
  key only). It reads the field \<open>carRotation\<close>, not \<open>car.rotation.y\<close>.
\<close>

definition toggleCameraMode :: "string \<Rightarrow> InfiniteRacer \<Rightarrow> InfiniteRacer" where
  "toggleCameraMode key st =
     (if key = ''c'' \<or> key = ''C'' then
        (let st1 = st\<lparr>isOrbitMode := \<not> isOrbitMode st\<rparr>;
             st2 = st1\<lparr>orbitEnabled := isOrbitMode st1\<rparr>
         in case car st2 of
              None \<Rightarrow> st2
            | Some c \<Rightarrow>
                if isOrbitMode st2 then st2\<lparr>orbitTarget := position c\<rparr>
                else
                  (let cameraOffset = vec (sin (carRotation st2) * - 15) 7
                                          (cos (carRotation st2) * - 15)
                   in st2\<lparr>cameraPosition := add (position c) cameraOffset,
                          cameraLookAt := position c\<rparr>))
      else st)"

subsection \<open>Construction (lines 18-62, 287-340, 488-506, 643-650) and the reachable states\<close>

text \<open>
  The state the constructor leaves, for the trees that \<open>createRaceTrack\<close> has placed,
  and the car the loader's callback installs. A tree is placed from three results of
  \<open>Math.random()\<close>.
\<close>

definition treeAt :: "real \<Rightarrow> real \<Rightarrow> real \<Rightarrow> Object3D" where
  "treeAt r1 r2 r3 =
     \<lparr>position = vec (if r1 > 0.5 then r2 * 200 + 50 else r2 * - 200 - 50) 0 (r3 * 1000 - 500),
      rotation = vec 0 0 0,
      scale = vec 1 1 1\<rparr>"

definition initialState :: "Object3D list \<Rightarrow> InfiniteRacer" where
  "initialState trees =
     \<lparr>car = None,
      cameraPosition = vec 0 10 (- 20),
      cameraLookAt = vec 0 0 0,
      orbitEnabled = False,
      orbitTarget = vec 0 0 0,
      speed = 0,
      carRotation = 0,
      isOrbitMode = False,
      isBoosting = False,
      boostParticles = [],
      objects = trees,
      isVibrating = False,
      vibrationTime = 0,
      isAccelerating = False,
      isBraking = False,
      isTurningLeft = False,
      isTurningRight = False\<rparr>"

definition loadedCar :: Object3D where
  "loadedCar = \<lparr>position = vec 0 0.5 0, rotation = vec 0 0 0, scale = vec 0.02 0.02 0.02\<rparr>"

definition carLoaded :: "InfiniteRacer \<Rightarrow> InfiniteRacer" where
  "carLoaded st = st\<lparr>car := Some loadedCar\<rparr>"

text \<open>
  An environment a frame can meet: \<open>Math.random()\<close> is in \<open>[0, 1)\<close> and the clock does
  not run backwards between the two reads of a frame.
\<close>

definition validEnv :: "frame_env \<Rightarrow> bool" where
  "validEnv env \<longleftrightarrow>
     nowStart env \<le> nowVibration env \<and>
     0 \<le> randLeftX env \<and> randLeftX env < 1 \<and> 0 \<le> randLeftY env \<and> randLeftY env < 1 \<and>
     0 \<le> randRightX env \<and> randRightX env < 1 \<and> 0 \<le> randRightY env \<and> randRightY env < 1 \<and>
     0 \<le> randVibX env \<and> randVibX env < 1 \<and> 0 \<le> randVibY env \<and> randVibY env < 1"

text \<open>
  The states the program reaches: the frame callback, the key events and the loader's
  callback (once) interleave in any order.
\<close>

inductive reachable :: "Object3D list \<Rightarrow> InfiniteRacer \<Rightarrow> bool" for trees where
  constructed: "reachable trees (initialState trees)"
| loaded: "reachable trees st \<Longrightarrow> car st = None \<Longrightarrow> reachable trees (carLoaded st)"
| frame: "reachable trees st \<Longrightarrow> validEnv env \<Longrightarrow> reachable trees (animate env st)"
| keyDown: "reachable trees st \<Longrightarrow> reachable trees (stateOf (handleKeyDown key st))"
| keyUp: "reachable trees st \<Longrightarrow> reachable trees (handleKeyUp key st)"

text \<open>
  A run of consecutive frames, one environment for each, with no key event in between;
  and a quiet environment for examples.
\<close>

fun frames :: "frame_env list \<Rightarrow> InfiniteRacer \<Rightarrow> InfiniteRacer" where
  "frames [] st = st"
| "frames (env # envs) st = frames envs (animate env st)"

definition quietEnv :: frame_env where
  "quietEnv =
     \<lparr>nowStart = 0, nowVibration = 0,
      randLeftX = 0, randLeftY = 0, randRightX = 0, randRightY = 0,
      randVibX = 0, randVibY = 0,
      orbitControlsUpdate = (\<lambda>target p. p)\<rparr>"

subsection \<open>States for examples\<close>

text \<open>
  The state with the car loaded, standing at \<open>p\<close> with heading \<open>ry\<close>, moving at speed
  \<open>s\<close>, no key held.
\<close>

definition carAt :: "Vector3 \<Rightarrow> real \<Rightarrow> Object3D" where
  "carAt p ry = loadedCar\<lparr>position := p, rotation := vec 0 ry 0\<rparr>"

definition drivingState :: "Object3D list \<Rightarrow> Vector3 \<Rightarrow> real \<Rightarrow> real \<Rightarrow> InfiniteRacer" where
  "drivingState trees p ry s = (initialState trees)\<lparr>car := Some (carAt p ry), speed := s\<rparr>"

text \<open>
  Trees as \<open>createRaceTrack\<close> places them: \<open>treeA\<close> at \<open>(100, 0, 0)\<close>, \<open>treeNearA\<close> at
  \<open>(100.1, 0, 0)\<close>, \<open>treeFar\<close> at \<open>(-150, 0, 400)\<close>, and \<open>treeEdge\<close> at \<open>(100, 0, -500)\<close>,
  on the edge of the plane.
\<close>

definition treeA :: Object3D where "treeA = treeAt 0.75 0.25 0.5"
definition treeNearA :: Object3D where "treeNearA = treeAt 0.75 0.2505 0.5"
definition treeFar :: Object3D where "treeFar = treeAt 0.25 0.5 0.9"
definition treeEdge :: Object3D where "treeEdge = treeAt 0.75 0.25 0"

text \<open>
  The car drives at full normal speed towards \<open>treeA\<close>, accelerate held: it stands at
  distance 2.8 and the frame brings it to distance 2.48.
\<close>

definition approachingTree :: InfiniteRacer where
  "approachingTree =
     (drivingState [treeFar, treeA, treeNearA] (vec 100 0.5 (- 2.8)) 0 2)\<lparr>isAccelerating := True\<rparr>"

text \<open>
  The car reverses, brake held, next to \<open>treeEdge\<close>: it stands inside the plane, out of
  reach of the tree, and the frame brings it over the edge and into reach of the tree.
\<close>

definition reversingOverEdge :: InfiniteRacer where
  "reversingOverEdge =
     (drivingState [treeEdge] (vec 102.499 0.5 (- 499.9)) 0 (- 0.8))\<lparr>isBraking := True\<rparr>"

text \<open>
  The car stands beyond the edge, at \<open>x = boundarySize + 1\<close>, with one flame of the
  boost effect still alive and the vibration running.
\<close>

definition flameAt :: "Vector3 \<Rightarrow> real \<Rightarrow> Mesh" where
  "flameAt p op = \<lparr>position = p, rotation = vec pi 0 0, scale = vec 1 1 1, opacity = op\<rparr>"

definition beyondEdge :: InfiniteRacer where
  "beyondEdge =
     (drivingState [treeA] (vec 501 0.5 0) 0 0)
       \<lparr>boostParticles := [flameAt (vec 500 0.8 0) 0.8], isVibrating := True\<rparr>"

text \<open>
  The car coasts towards \<open>treeA\<close> with the left key held; the turn of the frame brings
  its heading to zero.
\<close>

definition turningIntoTree :: InfiniteRacer where
  "turningIntoTree =
     (drivingState [treeA, treeFar] (vec 100 0.5 (- 2.8)) (- 0.011875) 3)
       \<lparr>isTurningLeft := True\<rparr>"

text \<open>The state \<open>reversingOverEdge\<close> with one flame of the boost effect still alive.\<close>

definition overEdgeWithFlame :: InfiniteRacer where
  "overEdgeWithFlame =
     reversingOverEdge\<lparr>boostParticles := [flameAt (vec 102.499 0.8 (- 498)) 0.8]\<rparr>"

text \<open>
  The boost key and the brake key are held, the car reverses at speed -1; and the car
  drives at speed 2.2, left from a boost, with accelerate held and the boost key
  released.
\<close>

definition brakingWithBoost :: InfiniteRacer where
  "brakingWithBoost =
     (drivingState [treeA] (vec 0 0.5 0) 0 (- 1))\<lparr>isBraking := True, isBoosting := True\<rparr>"

definition boostReleased :: InfiniteRacer where
  "boostReleased = (drivingState [treeA] (vec 0 0.5 0) 0 2.2)\<lparr>isAccelerating := True\<rparr>"

text \<open>
  The car drives straight along the z axis: it is on the axis with heading zero, no
  turn key is held, it does not vibrate, and every tree is at least 50 away from the
  axis, as \<open>createRaceTrack\<close> places them.
\<close>

definition cruising :: "InfiniteRacer \<Rightarrow> bool" where
  "cruising st \<longleftrightarrow>
     (\<exists>c. car st = Some c \<and> vx (position c) = 0 \<and> vy (rotation c) = 0) \<and>
     \<not> isTurningLeft st \<and> \<not> isTurningRight st \<and> \<not> isVibrating st \<and>
     (\<forall>t\<in>set (objects st). 50 \<le> \<bar>vx (position t)\<bar>)"

text \<open>
  A run from the construction: the car is loaded, the brake key and the boost key go
  down, eleven frames pass, both keys go up, one more frame passes.
\<close>

definition reverseKeysDown :: InfiniteRacer where
  "reverseKeysDown =
     stateOf (handleKeyDown ''shift''
       (stateOf (handleKeyDown ''s'' (carLoaded (initialState [treeA])))))"

definition reverseKeysUp :: InfiniteRacer where
  "reverseKeysUp =
     handleKeyUp ''shift'' (handleKeyUp ''s'' (frames (replicate 11 quietEnv) reverseKeysDown))"

definition coastingAfterBoost :: InfiniteRacer where
  "coastingAfterBoost = animate quietEnv reverseKeysUp"

text \<open>
  The car drives at speed 5 with the boost key held: coasting (no accelerate), and with
  accelerate held. A queue that is full, its twelve flames numbered by their height.
\<close>

definition boostCoasting :: InfiniteRacer where
  "boostCoasting = (drivingState [treeA] (vec 0 0.5 0) 0 5)\<lparr>isBoosting := True\<rparr>"

definition boostAccelerating :: InfiniteRacer where
  "boostAccelerating = boostCoasting\<lparr>isAccelerating := True\<rparr>"

definition fullQueue :: "Mesh list" where
  "fullQueue =
     [flameAt (vec 0 1 0) 0.8, flameAt (vec 0 2 0) 0.8, flameAt (vec 0 3 0) 0.8,
      flameAt (vec 0 4 0) 0.8, flameAt (vec 0 5 0) 0.8, flameAt (vec 0 6 0) 0.8,
      flameAt (vec 0 7 0) 0.8, flameAt (vec 0 8 0) 0.8, flameAt (vec 0 9 0) 0.8,
      flameAt (vec 0 10 0) 0.8, flameAt (vec 0 11 0) 0.8, flameAt (vec 0 12 0) 0.8]"

text \<open>
  The car has just been loaded, the camera is where the constructor put it; and the
  car has turned to heading 1 and driven on, in Orbit mode, with the camera moved by
  the orbit controls.
\<close>

definition justLoaded :: InfiniteRacer where
  "justLoaded = carLoaded (initialState [treeA])"

definition orbiting :: InfiniteRacer where
  "orbiting =
     (drivingState [treeA] (vec 10 0.5 20) 1 0)
       \<lparr>isOrbitMode := True, orbitEnabled := True, orbitTarget := vec 10 0.5 20,
        cameraPosition := vec 5 5 5, cameraLookAt := vec 10 0.5 20\<rparr>"

text \<open>The car coasts towards \<open>treeA\<close> with the right key held.\<close>

definition turningRightIntoTree :: InfiniteRacer where
  "turningRightIntoTree =
     (drivingState [treeA, treeFar] (vec 100 0.5 (- 2.8)) 0.011875 3)
       \<lparr>isTurningRight := True\<rparr>"

subsection \<open>Line 96 in binary64\<close>

text \<open>
  A JavaScript number is an IEEE 754 binary64 value and \<open>+\<close> rounds the exact sum to
  the nearest one, ties to the even significand. \<open>binary64 x\<close> is that rounding for a
  real \<open>x\<close> in the normal range (\<open>2^-1022 \<le> |x| < 2^1024\<close>): the exponent \<open>e\<close> of the
  binade of \<open>x\<close>, a significand of 53 bits, so a spacing of \<open>2^(e - 52)\<close>. Overflow
  and subnormal numbers are not modelled; the speeds of this program are far from both.
  \<open>acceleration64\<close> is the value the literal \<open>0.1\<close> denotes, and \<open>accelerate64\<close> is the
  assignment of line 96, \<open>this.speed = Math.min(this.speed + this.acceleration,
  currentMaxSpeed)\<close>, on such values; \<open>Math.min\<close> does not round.
\<close>

definition roundTiesToEven :: "real \<Rightarrow> int" where
  "roundTiesToEven q =
     (let f = \<lfloor>q\<rfloor>
      in if q - of_int f < 1 / 2 then f
         else if 1 / 2 < q - of_int f then f + 1
         else if even f then f else f + 1)"

definition binary64 :: "real \<Rightarrow> real" where
  "binary64 x =
     (if x = 0 then 0
      else (let e = \<lfloor>log 2 \<bar>x\<bar>\<rfloor>;
                ulp = 2 powr (of_int e - 52)
            in of_int (roundTiesToEven (x / ulp)) * ulp))"

definition acceleration64 :: real where
  "acceleration64 = binary64 acceleration"

definition accelerate64 :: "real \<Rightarrow> real \<Rightarrow> real" where
  "accelerate64 limit s = min (binary64 (s + acceleration64)) limit"

section \<open>Properties\<close>

subsection \<open>What each block of \<open>updateCarMovement\<close> leaves alone\<close>

lemma updateSpeed_other [simp]:
  "car (updateSpeed env c st) = car st"
  "isOrbitMode (updateSpeed env c st) = isOrbitMode st"
  "isBoosting (updateSpeed env c st) = isBoosting st"
  "isVibrating (updateSpeed env c st) = isVibrating st"
  "vibrationTime (updateSpeed env c st) = vibrationTime st"
  "objects (updateSpeed env c st) = objects st"
  "cameraPosition (updateSpeed env c st) = cameraPosition st"
  "cameraLookAt (updateSpeed env c st) = cameraLookAt st"
  "isTurningLeft (updateSpeed env c st) = isTurningLeft st"
  "isTurningRight (updateSpeed env c st) = isTurningRight st"
  "isAccelerating (updateSpeed env c st) = isAccelerating st"
  "isBraking (updateSpeed env c st) = isBraking st"
  by (simp_all add: updateSpeed_def createBoostEffect_def Let_def)

lemma updateCameraByMode_other [simp]:
  "car (updateCameraByMode env c st) = car st"
  "speed (updateCameraByMode env c st) = speed st"
  "isVibrating (updateCameraByMode env c st) = isVibrating st"
  "vibrationTime (updateCameraByMode env c st) = vibrationTime st"
  "objects (updateCameraByMode env c st) = objects st"
  "boostParticles (updateCameraByMode env c st) = boostParticles st"
  "isBoosting (updateCameraByMode env c st) = isBoosting st"
  "isOrbitMode (updateCameraByMode env c st) = isOrbitMode st"
  "isAccelerating (updateCameraByMode env c st) = isAccelerating st"
  "isBraking (updateCameraByMode env c st) = isBraking st"
  "isTurningLeft (updateCameraByMode env c st) = isTurningLeft st"
  "isTurningRight (updateCameraByMode env c st) = isTurningRight st"
  by (simp_all add: updateCameraByMode_def Let_def)

lemma beforeBoundary_fields [simp]:
  "car (beforeBoundary env c st) = Some (movedCar env c st)"
  "speed (beforeBoundary env c st) = speed (updateSpeed env c st)"
  "isVibrating (beforeBoundary env c st) = isVibrating st"
  "vibrationTime (beforeBoundary env c st) = vibrationTime st"
  "objects (beforeBoundary env c st) = objects st"
  "isBoosting (beforeBoundary env c st) = isBoosting st"
  "isOrbitMode (beforeBoundary env c st) = isOrbitMode st"
  "isAccelerating (beforeBoundary env c st) = isAccelerating st"
  "isBraking (beforeBoundary env c st) = isBraking st"
  "isTurningLeft (beforeBoundary env c st) = isTurningLeft st"
  "isTurningRight (beforeBoundary env c st) = isTurningRight st"
  "boostParticles (beforeBoundary env c st) =
     cleanupParticles (boostParticles (updateSpeed env c st))"
  by (simp_all add: beforeBoundary_def movedCar_def Let_def)

subsection \<open>Unfolding sets for the evaluation of examples\<close>

lemmas example_defs = drivingState_def carAt_def initialState_def loadedCar_def treeAt_def
  quietEnv_def vec_def add_def lerp_def multiplyScalar_def treeA_def treeNearA_def
  treeFar_def treeEdge_def flameAt_def carLoaded_def

lemmas const_defs = maxSpeed_def turnSpeed_def normalMaxSpeed_def boostMaxSpeed_def
  acceleration_def spawnPoint_def boundarySize_def vibrationIntensity_def vibrationDuration_def

lemmas frame_defs = updateCarMovement_def beforeBoundary_def movedCar_def updateSpeed_def
  currentMaxSpeed_def updateRotation_def turnLeft_def turnRight_def moveForward_def
  updateCameraByMode_def chaseOffset_def outOfBounds_def respawnCar_def handleVibration_def
  collisionResponse_def startVibration_def createBoostEffect_def fade_def

subsection \<open>The boundary\<close>

text \<open>
  C2. On every frame in which the car, after the translation of this frame, has
  \<open>|x| > boundarySize\<close> or \<open>|z| > boundarySize\<close>, the state the frame leaves has the car
  at the spawn point with all three rotation angles (so the heading) zero, the speed
  zero and the vibration flag cleared.
\<close>

theorem boundary_respawn:
  assumes "car st = Some c"
    and "outOfBounds (position (movedCar env c st))"
  shows "\<exists>c'. car (updateCarMovement env st) = Some c' \<and>
           position c' = spawnPoint \<and> rotation c' = vec 0 0 0 \<and>
           speed (updateCarMovement env st) = 0 \<and>
           \<not> isVibrating (updateCarMovement env st)"
  using assms by (simp add: updateCarMovement_def respawnCar_def Let_def)

theorem boundary_respawn_witness:
  "car beyondEdge = Some (carAt (vec 501 0.5 0) 0) \<and>
   outOfBounds (position (movedCar quietEnv (carAt (vec 501 0.5 0) 0) beyondEdge)) \<and>
   (\<exists>c'. car (updateCarMovement quietEnv beyondEdge) = Some c' \<and>
      position c' = vec 0 0.5 0 \<and> rotation c' = vec 0 0 0 \<and>
      speed (updateCarMovement quietEnv beyondEdge) = 0 \<and>
      \<not> isVibrating (updateCarMovement quietEnv beyondEdge))"
proof -
  have h1: "car beyondEdge = Some (carAt (vec 501 0.5 0) 0)"
    by (simp add: beyondEdge_def drivingState_def)
  have h2: "outOfBounds (position (movedCar quietEnv (carAt (vec 501 0.5 0) 0) beyondEdge))"
    by (simp add: beyondEdge_def example_defs const_defs frame_defs Let_def)
  from boundary_respawn [OF h1 h2] h1 h2 show ?thesis
    by (simp add: spawnPoint_def)
qed

subsection \<open>The collision test and the loop over the obstacles\<close>

lemma checkCollision_iff:
  "checkCollision p t \<longleftrightarrow> (vx p - vx t)\<^sup>2 + (vz p - vz t)\<^sup>2 < 25 / 4"
proof -
  let ?a = "(vx p - vx t) * (vx p - vx t) + (vz p - vz t) * (vz p - vz t)"
  have "sqrt ?a < 5 / 2 \<longleftrightarrow> sqrt ?a < sqrt ((5 / 2)\<^sup>2)"
    by (simp only: real_sqrt_abs) simp
  also have "\<dots> \<longleftrightarrow> ?a < (5 / 2)\<^sup>2"
    by (rule real_sqrt_less_iff)
  finally show ?thesis
    by (simp add: checkCollision_def Let_def power2_eq_square)
qed

lemma checkCollisions_first_hit:
  assumes "\<forall>object\<in>set pre. \<not> checkCollision (position c) (position object)"
    and "checkCollision (position c) (position tree)"
  shows "checkCollisions env prev c (pre @ tree # post) st = collisionResponse env prev c st"
  using assms by (induction pre) simp_all

lemma checkCollisions_no_hit:
  assumes "\<forall>object\<in>set os. \<not> checkCollision (position c) (position object)"
  shows "checkCollisions env prev c os st = st"
  using assms by (induction os) simp_all

lemma checkCollisions_cases:
  "checkCollisions env prev c os st = st \<or>
   checkCollisions env prev c os st = collisionResponse env prev c st"
  by (induction os) simp_all

lemma rotation_movedCar:
  "rotation (movedCar env c st) = rotation (updateRotation (updateSpeed env c st) c)"
  by (simp add: movedCar_def moveForward_def Let_def)

lemma scale_movedCar: "scale (movedCar env c st) = scale c"
  by (simp add: movedCar_def moveForward_def updateRotation_def turnLeft_def turnRight_def Let_def)

lemma heading_updateRotation:
  "vy (rotation (updateRotation st c)) =
     vy (rotation c)
       + (if isTurningLeft st then turnSpeed * (\<bar>speed st\<bar> / maxSpeed) else 0)
       - (if isTurningRight st then turnSpeed * (\<bar>speed st\<bar> / maxSpeed) else 0)"
  by (simp add: updateRotation_def turnLeft_def turnRight_def Let_def)

text \<open>A frame with the car inside the boundary after the translation and an obstacle in reach.\<close>

lemma colliding_frame:
  assumes "car st = Some c"
    and "\<not> outOfBounds (position (movedCar env c st))"
    and "objects st = pre @ tree # post"
    and "\<forall>object\<in>set pre. \<not> checkCollision (position (movedCar env c st)) (position object)"
    and "checkCollision (position (movedCar env c st)) (position tree)"
  shows "updateCarMovement env st =
           handleVibration env
             (collisionResponse env (position c) (movedCar env c st) (beforeBoundary env c st))"
  using assms by (simp add: updateCarMovement_def Let_def checkCollisions_first_hit)

lemma respawn_frame:
  assumes "car st = Some c" and "outOfBounds (position (movedCar env c st))"
  shows "updateCarMovement env st = respawnCar (movedCar env c st) (beforeBoundary env c st)"
  using assms by (simp add: updateCarMovement_def Let_def)

lemma in_bounds_frame:
  assumes "car st = Some c" and "\<not> outOfBounds (position (movedCar env c st))"
  shows "updateCarMovement env st =
           handleVibration env
             (checkCollisions env (position c) (movedCar env c st) (objects st)
                (beforeBoundary env c st))"
  using assms by (simp add: updateCarMovement_def Let_def)

subsection \<open>The collision response\<close>

text \<open>
  C1, as the code has it. The claim as stated fails: the boundary test comes before
  the collision loop, so a frame that brings the car over the edge and into reach of an
  obstacle respawns the car and runs no collision response; and the vibration block of
  the same frame moves the restored position. What holds: on a frame whose translated
  position is inside the boundary and in reach (planar distance below 2.5) of an
  obstacle, the loop stops at the first such obstacle in list order, whatever follows
  it in the list, and its response puts the car back to the position captured at the
  start of the frame, sets the speed to -0.5 times the speed the speed update of this
  frame produced, and switches the vibration on with the time of \<open>Date.now()\<close>. At the
  end of the frame the speed and the recorded time are these; the vibration block then
  either shifts x and y of the restored position by \<open>(random - 0.5) * 0.1\<close> each (fewer
  than 1000 ms elapsed, the vibration stays on) or switches the vibration off.
\<close>

theorem collision_response_in_bounds:
  assumes "car st = Some c"
    and "\<not> outOfBounds (position (movedCar env c st))"
    and "objects st = pre @ tree # post"
    and "\<forall>object\<in>set pre. \<not> checkCollision (position (movedCar env c st)) (position object)"
    and "checkCollision (position (movedCar env c st)) (position tree)"
  shows "checkCollisions env (position c) (movedCar env c st) (objects st) (beforeBoundary env c st)
           = collisionResponse env (position c) (movedCar env c st) (beforeBoundary env c st) \<and>
         car (collisionResponse env (position c) (movedCar env c st) (beforeBoundary env c st))
           = Some ((movedCar env c st)\<lparr>position := position c\<rparr>) \<and>
         speed (updateCarMovement env st) = - 0.5 * speed (updateSpeed env c st) \<and>
         vibrationTime (updateCarMovement env st) = nowStart env \<and>
         (isVibrating (updateCarMovement env st) \<longleftrightarrow>
            nowVibration env - nowStart env < vibrationDuration) \<and>
         car (updateCarMovement env st) =
           Some ((movedCar env c st)\<lparr>position :=
              if nowVibration env - nowStart env < vibrationDuration
              then (position c)\<lparr>vx := vx (position c) + (randVibX env - 0.5) * vibrationIntensity,
                                 vy := vy (position c) + (randVibY env - 0.5) * vibrationIntensity\<rparr>
              else position c\<rparr>)"
proof -
  let ?c5 = "movedCar env c st" and ?st5 = "beforeBoundary env c st"
  have hit: "checkCollisions env (position c) ?c5 (objects st) ?st5
      = collisionResponse env (position c) ?c5 ?st5"
    using assms(3-5) by (simp add: checkCollisions_first_hit)
  have restored: "car (collisionResponse env (position c) ?c5 ?st5)
      = Some (?c5\<lparr>position := position c\<rparr>)"
    by (simp add: collisionResponse_def startVibration_def)
  note U = colliding_frame [OF assms]
  have s: "speed (updateCarMovement env st) = - 0.5 * speed (updateSpeed env c st)"
    by (simp add: U handleVibration_def collisionResponse_def startVibration_def Let_def)
  have t: "vibrationTime (updateCarMovement env st) = nowStart env"
    by (simp add: U handleVibration_def collisionResponse_def startVibration_def Let_def)
  have v: "isVibrating (updateCarMovement env st) \<longleftrightarrow>
           nowVibration env - nowStart env < vibrationDuration"
    by (simp add: U handleVibration_def collisionResponse_def startVibration_def Let_def)
  have p: "car (updateCarMovement env st) =
           Some (?c5\<lparr>position :=
              if nowVibration env - nowStart env < vibrationDuration
              then (position c)\<lparr>vx := vx (position c) + (randVibX env - 0.5) * vibrationIntensity,
                                 vy := vy (position c) + (randVibY env - 0.5) * vibrationIntensity\<rparr>
              else position c\<rparr>)"
    by (simp add: U handleVibration_def collisionResponse_def startVibration_def Let_def)
  from hit restored s t v p show ?thesis by blast
qed

theorem collision_response_in_bounds_witness:
  "car approachingTree = Some (carAt (vec 100 0.5 (- 2.8)) 0) \<and>
   \<not> outOfBounds (position (movedCar quietEnv (carAt (vec 100 0.5 (- 2.8)) 0) approachingTree)) \<and>
   objects approachingTree = [treeFar] @ treeA # [treeNearA] \<and>
   \<not> checkCollision (position (movedCar quietEnv (carAt (vec 100 0.5 (- 2.8)) 0) approachingTree))
       (position treeFar) \<and>
   checkCollision (position (movedCar quietEnv (carAt (vec 100 0.5 (- 2.8)) 0) approachingTree))
       (position treeA) \<and>
   speed (updateCarMovement quietEnv approachingTree) = - 1 \<and>
   vibrationTime (updateCarMovement quietEnv approachingTree) = 0 \<and>
   isVibrating (updateCarMovement quietEnv approachingTree) \<and>
   car (updateCarMovement quietEnv approachingTree) = Some (carAt (vec 99.95 0.45 (- 2.8)) 0)"
proof -
  let ?c = "carAt (vec 100 0.5 (- 2.8)) 0"
  have h1: "car approachingTree = Some ?c"
    by (simp add: approachingTree_def drivingState_def)
  have m: "position (movedCar quietEnv ?c approachingTree) = vec 100 0.5 (- 2.48)"
    by (simp add: approachingTree_def example_defs const_defs frame_defs Let_def)
  have h2: "\<not> outOfBounds (position (movedCar quietEnv ?c approachingTree))"
    unfolding m by (simp add: outOfBounds_def vec_def boundarySize_def)
  have h3: "objects approachingTree = [treeFar] @ treeA # [treeNearA]"
    by (simp add: approachingTree_def drivingState_def initialState_def)
  have h4: "\<forall>object\<in>set [treeFar].
      \<not> checkCollision (position (movedCar quietEnv ?c approachingTree)) (position object)"
    unfolding m by (simp add: checkCollision_iff example_defs power2_eq_square)
  have h5: "checkCollision (position (movedCar quietEnv ?c approachingTree)) (position treeA)"
    unfolding m by (simp add: checkCollision_iff example_defs power2_eq_square)
  have u: "speed (updateSpeed quietEnv ?c approachingTree) = 2"
    by (simp add: approachingTree_def example_defs const_defs frame_defs Let_def)
  have r: "(movedCar quietEnv ?c approachingTree)\<lparr>position := vec 99.95 0.45 (- 2.8)\<rparr>
      = carAt (vec 99.95 0.45 (- 2.8)) 0"
    by (simp add: approachingTree_def example_defs const_defs frame_defs Let_def)
  from collision_response_in_bounds [OF h1 h2 h3 h4 h5] h1 h2 h3 h4 h5 u r
  show ?thesis
    by (simp add: quietEnv_def vibrationDuration_def vibrationIntensity_def carAt_def vec_def)
qed

theorem collision_beyond_boundary_counterexample:
  "\<not> checkCollision (vec 102.499 0.5 (- 499.9)) (position treeEdge) \<and>
   car reversingOverEdge = Some (carAt (vec 102.499 0.5 (- 499.9)) 0) \<and>
   checkCollision
     (position (movedCar quietEnv (carAt (vec 102.499 0.5 (- 499.9)) 0) reversingOverEdge))
     (position treeEdge) \<and>
   speed (updateSpeed quietEnv (carAt (vec 102.499 0.5 (- 499.9)) 0) reversingOverEdge) = - 1 \<and>
   car (updateCarMovement quietEnv reversingOverEdge) = Some (carAt (vec 0 0.5 0) 0) \<and>
   speed (updateCarMovement quietEnv reversingOverEdge) = 0 \<and>
   \<not> isVibrating (updateCarMovement quietEnv reversingOverEdge)"
  by (simp add: reversingOverEdge_def checkCollision_iff example_defs const_defs frame_defs
      Let_def power2_eq_square)

subsection \<open>The speed update\<close>

lemma speed_updateSpeed:
  "speed (updateSpeed env c st) =
     (if isAccelerating st then min (speed st + acceleration) (currentMaxSpeed st)
      else if isBraking st then max (speed st - acceleration * 2) (- currentMaxSpeed st / 2)
      else if \<bar>speed st\<bar> > 0.01 then speed st * 0.95 else 0)"
  by (simp add: updateSpeed_def createBoostEffect_def Let_def)

text \<open>
  C4, as the code has it. The claim as stated fails: the ceiling does not depend on
  accelerate. What holds: the ceiling used to clamp the acceleration and to floor the
  braking is the boosted ceiling if and only if \<open>isBoosting\<close> is set, whatever
  accelerate is, and the normal ceiling otherwise; braking with the boost key held
  and accelerate not held floors the speed at minus half the boosted ceiling, -5.
\<close>

theorem ceiling_by_boost_flag:
  "(currentMaxSpeed st = boostMaxSpeed \<longleftrightarrow> isBoosting st) \<and>
   (currentMaxSpeed st = normalMaxSpeed \<longleftrightarrow> \<not> isBoosting st) \<and>
   (isAccelerating st \<longrightarrow>
      speed (updateSpeed env c st) = min (speed st + acceleration) (currentMaxSpeed st)) \<and>
   (\<not> isAccelerating st \<and> isBraking st \<longrightarrow>
      speed (updateSpeed env c st) =
        max (speed st - acceleration * 2) (- currentMaxSpeed st / 2)) \<and>
   (\<not> isAccelerating st \<and> isBraking st \<and> isBoosting st \<longrightarrow>
      speed (updateSpeed env c st) = max (speed st - 0.2) (- 5))"
  by (simp add: speed_updateSpeed currentMaxSpeed_def boostMaxSpeed_def normalMaxSpeed_def
      acceleration_def)

theorem ceiling_by_boost_flag_witness:
  "\<not> isAccelerating brakingWithBoost \<and> isBraking brakingWithBoost \<and>
   isBoosting brakingWithBoost \<and>
   currentMaxSpeed brakingWithBoost = 10 \<and>
   speed (updateSpeed quietEnv (carAt (vec 0 0.5 0) 0) brakingWithBoost) = - 1.2"
proof -
  have f: "\<not> isAccelerating brakingWithBoost" "isBraking brakingWithBoost"
    "isBoosting brakingWithBoost" "speed brakingWithBoost = - 1"
    by (simp_all add: brakingWithBoost_def drivingState_def initialState_def)
  from ceiling_by_boost_flag [of brakingWithBoost quietEnv "carAt (vec 0 0.5 0) 0"] f
  show ?thesis
    by (simp add: boostMaxSpeed_def acceleration_def)
qed

theorem brake_floor_counterexample:
  "car brakingWithBoost = Some (carAt (vec 0 0.5 0) 0) \<and>
   isBoosting brakingWithBoost \<and> \<not> isAccelerating brakingWithBoost \<and>
   isBraking brakingWithBoost \<and> speed brakingWithBoost = - 1 \<and>
   currentMaxSpeed brakingWithBoost \<noteq> normalMaxSpeed \<and>
   max (speed brakingWithBoost - acceleration * 2) (- normalMaxSpeed / 2) = - 1 \<and>
   speed (updateSpeed quietEnv (carAt (vec 0 0.5 0) 0) brakingWithBoost) = - 1.2 \<and>
   speed (updateCarMovement quietEnv brakingWithBoost) = - 1.2"
  by (simp add: brakingWithBoost_def checkCollision_iff example_defs const_defs frame_defs
      Let_def power2_eq_square)

subsection \<open>Accelerating\<close>

lemma cruising_frame:
  assumes cr: "cruising st" and c: "car st = Some c"
    and inside: "\<bar>vz (position c) + speed (updateSpeed env c st) * 0.16\<bar> \<le> boundarySize"
  shows "cruising (animate env st)"
    and "speed (animate env st) = speed (updateSpeed env c st)"
    and "\<exists>c'. car (animate env st) = Some c' \<and>
           vz (position c') = vz (position c) + speed (updateSpeed env c st) * 0.16"
    and "isAccelerating (animate env st) = isAccelerating st"
    and "isBraking (animate env st) = isBraking st"
    and "isBoosting (animate env st) = isBoosting st"
proof -
  let ?c5 = "movedCar env c st" and ?st5 = "beforeBoundary env c st"
  from cr c have x: "vx (position c) = 0" and h: "vy (rotation c) = 0"
    and nl: "\<not> isTurningLeft st" and nr: "\<not> isTurningRight st" and nv: "\<not> isVibrating st"
    and far: "\<forall>t\<in>set (objects st). 50 \<le> \<bar>vx (position t)\<bar>"
    by (auto simp: cruising_def)
  have rot: "rotation ?c5 = rotation c"
    using nl nr by (simp add: rotation_movedCar updateRotation_def)
  have pos: "position ?c5 =
      (position c)\<lparr>vz := vz (position c) + speed (updateSpeed env c st) * 0.16\<rparr>"
    using nl nr h x
    by (simp add: movedCar_def moveForward_def updateRotation_def Let_def)
  have inb: "\<not> outOfBounds (position ?c5)"
    using inside x by (simp add: pos outOfBounds_def boundarySize_def)
  have nohit: "\<forall>object\<in>set (objects st).
      \<not> checkCollision (position ?c5) (position object)"
  proof
    fix t assume "t \<in> set (objects st)"
    with far have "50 \<le> \<bar>vx (position t)\<bar>" by blast
    then have "2500 \<le> (vx (position t))\<^sup>2"
      using abs_le_square_iff [of 50 "vx (position t)"] by simp
    moreover have "vx (position ?c5) = 0"
      by (simp add: pos x)
    ultimately have "2500 \<le> (vx (position ?c5) - vx (position t))\<^sup>2"
      by simp
    moreover have "0 \<le> (vz (position ?c5) - vz (position t))\<^sup>2"
      by simp
    ultimately show "\<not> checkCollision (position ?c5) (position t)"
      unfolding checkCollision_iff by linarith
  qed
  have U: "updateCarMovement env st = ?st5"
    using nv nohit
    by (simp add: in_bounds_frame [OF c inb] checkCollisions_no_hit handleVibration_def)
  have A: "animate env st =
      (if isOrbitMode st
       then ?st5\<lparr>cameraPosition := orbitControlsUpdate env (orbitTarget ?st5) (cameraPosition ?st5),
                 cameraLookAt := orbitTarget ?st5\<rparr>
       else ?st5)"
    by (simp add: animate_def U Let_def)
  show "speed (animate env st) = speed (updateSpeed env c st)"
    by (simp add: A)
  show "\<exists>c'. car (animate env st) = Some c' \<and>
      vz (position c') = vz (position c) + speed (updateSpeed env c st) * 0.16"
    by (simp add: A pos)
  show "isAccelerating (animate env st) = isAccelerating st"
    "isBraking (animate env st) = isBraking st"
    "isBoosting (animate env st) = isBoosting st"
    by (simp_all add: A)
  show "cruising (animate env st)"
    using nl nr nv far x h by (simp add: cruising_def A pos rot)
qed

subsection \<open>Ten accelerating frames in binary64\<close>

lemma binary64_binade:
  assumes "1 / 2 ^ k \<le> x" and "x < 2 / 2 ^ k"
  shows "binary64 x = of_int (roundTiesToEven (x * 2 ^ (k + 52))) / 2 ^ (k + 52)"
proof -
  have "0 < 1 / (2::real) ^ k"
    by simp
  with assms(1) have pos: "0 < x"
    by linarith
  have p: "(2::real) powr of_int (- int k) = 1 / 2 ^ k"
    by (simp add: powr_minus powr_realpow inverse_eq_divide)
  have p1: "(2::real) powr of_int (- int k + 1) = 2 / 2 ^ k"
  proof -
    have eq: "real_of_int (- int k + 1) = of_int (- int k) + 1"
      by simp
    have "(2::real) powr (of_int (- int k) + 1) = 2 powr of_int (- int k) * 2 powr 1"
      by (rule powr_add)
    also have "\<dots> = 2 / 2 ^ k"
      unfolding p by simp
    finally show ?thesis
      unfolding eq .
  qed
  have two: "(1::real) < 2"
    by simp
  have "\<lfloor>log 2 x\<rfloor> = - int k \<longleftrightarrow>
      2 powr of_int (- int k) \<le> x \<and> x < 2 powr of_int (- int k + 1)"
    by (rule floor_log_eq_powr_iff [OF pos two])
  then have e: "\<lfloor>log 2 x\<rfloor> = - int k"
    unfolding p p1 using assms by blast
  have u: "(2::real) powr (of_int (- int k) - 52) = 1 / 2 ^ (k + 52)"
  proof -
    have "(2::real) powr (of_int (- int k) - 52) = 2 powr (- real (k + 52))"
      by simp
    also have "\<dots> = 1 / 2 ^ (k + 52)"
      by (simp only: powr_minus powr_realpow zero_less_numeral inverse_eq_divide)
    finally show ?thesis .
  qed
  show ?thesis
    using pos by (simp add: binary64_def e u Let_def del: of_int_minus)
qed

text \<open>The double that the literal \<open>0.1\<close> denotes: \<open>3602879701896397 / 2^55\<close>.\<close>

lemma acceleration64_value: "acceleration64 = 3602879701896397 / 36028797018963968"
  unfolding acceleration64_def acceleration_def
  using binary64_binade [of 4 "1 / 10"] by (simp add: roundTiesToEven_def)

text \<open>
  The ten sums, each rounded: 0.1, 0.2, 0.30000000000000004, 0.4, 0.5, 0.6, 0.7,
  0.7999999999999999, 0.8999999999999999, 0.9999999999999999. The third is a tie,
  rounded to the even significand.
\<close>

lemma accelerate64_step1: "accelerate64 2 (0) = 3602879701896397 / 36028797018963968"
  unfolding accelerate64_def acceleration64_value
  using binary64_binade [of 4 "0 + 3602879701896397 / 36028797018963968"] by (simp add: roundTiesToEven_def)

lemma accelerate64_step2: "accelerate64 2 (3602879701896397 / 36028797018963968) = 3602879701896397 / 18014398509481984"
  unfolding accelerate64_def acceleration64_value
  using binary64_binade [of 3 "3602879701896397 / 36028797018963968 + 3602879701896397 / 36028797018963968"] by (simp add: roundTiesToEven_def)

lemma accelerate64_step3: "accelerate64 2 (3602879701896397 / 18014398509481984) = 1351079888211149 / 4503599627370496"
  unfolding accelerate64_def acceleration64_value
  using binary64_binade [of 2 "3602879701896397 / 18014398509481984 + 3602879701896397 / 36028797018963968"] by (simp add: roundTiesToEven_def)

lemma accelerate64_step4: "accelerate64 2 (1351079888211149 / 4503599627370496) = 3602879701896397 / 9007199254740992"
  unfolding accelerate64_def acceleration64_value
  using binary64_binade [of 2 "1351079888211149 / 4503599627370496 + 3602879701896397 / 36028797018963968"] by (simp add: roundTiesToEven_def)

lemma accelerate64_step5: "accelerate64 2 (3602879701896397 / 9007199254740992) = 1 / 2"
  unfolding accelerate64_def acceleration64_value
  using binary64_binade [of 1 "3602879701896397 / 9007199254740992 + 3602879701896397 / 36028797018963968"] by (simp add: roundTiesToEven_def)

lemma accelerate64_step6: "accelerate64 2 (1 / 2) = 5404319552844595 / 9007199254740992"
  unfolding accelerate64_def acceleration64_value
  using binary64_binade [of 1 "1 / 2 + 3602879701896397 / 36028797018963968"] by (simp add: roundTiesToEven_def)

lemma accelerate64_step7: "accelerate64 2 (5404319552844595 / 9007199254740992) = 3152519739159347 / 4503599627370496"
  unfolding accelerate64_def acceleration64_value
  using binary64_binade [of 1 "5404319552844595 / 9007199254740992 + 3602879701896397 / 36028797018963968"] by (simp add: roundTiesToEven_def)

lemma accelerate64_step8: "accelerate64 2 (3152519739159347 / 4503599627370496) = 7205759403792793 / 9007199254740992"
  unfolding accelerate64_def acceleration64_value
  using binary64_binade [of 1 "3152519739159347 / 4503599627370496 + 3602879701896397 / 36028797018963968"] by (simp add: roundTiesToEven_def)

lemma accelerate64_step9: "accelerate64 2 (7205759403792793 / 9007199254740992) = 2026619832316723 / 2251799813685248"
  unfolding accelerate64_def acceleration64_value
  using binary64_binade [of 1 "7205759403792793 / 9007199254740992 + 3602879701896397 / 36028797018963968"] by (simp add: roundTiesToEven_def)

lemma accelerate64_step10: "accelerate64 2 (2026619832316723 / 2251799813685248) = 9007199254740991 / 9007199254740992"
  unfolding accelerate64_def acceleration64_value
  using binary64_binade [of 1 "2026619832316723 / 2251799813685248 + 3602879701896397 / 36028797018963968"] by (simp add: roundTiesToEven_def)

lemma ten_accelerations_binary64:
  "(accelerate64 normalMaxSpeed ^^ 10) 0 = 1 - 1 / 2 ^ 53"
proof -
  have "(accelerate64 2 ^^ 10) 0 =
      accelerate64 2 (accelerate64 2 (accelerate64 2 (accelerate64 2 (accelerate64 2
        (accelerate64 2 (accelerate64 2 (accelerate64 2 (accelerate64 2
          (accelerate64 2 0)))))))))"
    by (simp add: eval_nat_numeral)
  also have "\<dots> = 9007199254740991 / 9007199254740992"
    by (simp only: accelerate64_step1 accelerate64_step2 accelerate64_step3
        accelerate64_step4 accelerate64_step5 accelerate64_step6 accelerate64_step7
        accelerate64_step8 accelerate64_step9 accelerate64_step10)
  finally have "(accelerate64 2 ^^ 10) 0 = 9007199254740991 / 9007199254740992" .
  then show ?thesis
    by (simp add: normalMaxSpeed_def)
qed

text \<open>
  C6, as the code has it. The claim as stated fails twice: a speed above the ceiling,
  left from a boost whose key has been released, is cut down to the ceiling by the next
  accelerating frame; and ten additions of 0.1 in binary64 do not give 1. What holds:
  on every frame with accelerate held (whatever brake is) the speed update gives
  \<open>min (speed + acceleration) currentMaxSpeed\<close>, which never exceeds
  \<open>currentMaxSpeed\<close>, is not below the old speed whenever the old speed does not
  exceed \<open>currentMaxSpeed\<close>, and is \<open>currentMaxSpeed\<close> otherwise. From speed 0, with
  the acceleration constant 0.1 and the ceiling 2, ten consecutive such updates, in
  binary64 as the program computes them, yield \<open>1 - 2^-53\<close>, the double printed as
  0.9999999999999999.
\<close>

theorem accelerate_speed:
  "(isAccelerating st \<longrightarrow>
      speed (updateSpeed env c st) = min (speed st + acceleration) (currentMaxSpeed st) \<and>
      speed (updateSpeed env c st) \<le> currentMaxSpeed st \<and>
      (speed st \<le> currentMaxSpeed st \<longrightarrow> speed st \<le> speed (updateSpeed env c st)) \<and>
      (currentMaxSpeed st < speed st \<longrightarrow> speed (updateSpeed env c st) = currentMaxSpeed st)) \<and>
   (accelerate64 normalMaxSpeed ^^ 10) 0 = 1 - 1 / 2 ^ 53"
proof (intro conjI impI)
  assume "isAccelerating st"
  then show s: "speed (updateSpeed env c st) = min (speed st + acceleration) (currentMaxSpeed st)"
    by (simp add: speed_updateSpeed)
  show "speed (updateSpeed env c st) \<le> currentMaxSpeed st"
    by (simp add: s)
  show "speed st \<le> speed (updateSpeed env c st)" if "speed st \<le> currentMaxSpeed st"
    using that by (simp add: s acceleration_def)
  show "speed (updateSpeed env c st) = currentMaxSpeed st" if "currentMaxSpeed st < speed st"
    using that by (simp add: s acceleration_def)
next
  show "(accelerate64 normalMaxSpeed ^^ 10) 0 = 1 - 1 / 2 ^ 53"
    by (rule ten_accelerations_binary64)
qed

theorem accelerate_speed_witness:
  "isAccelerating approachingTree \<and> speed approachingTree = 2 \<and>
   currentMaxSpeed approachingTree = 2 \<and>
   speed (updateSpeed quietEnv (carAt (vec 100 0.5 (- 2.8)) 0) approachingTree) = 2 \<and>
   isAccelerating boostReleased \<and> speed boostReleased = 2.2 \<and>
   currentMaxSpeed boostReleased = 2 \<and>
   speed (updateSpeed quietEnv (carAt (vec 0 0.5 0) 0) boostReleased) = 2"
proof -
  have f: "isAccelerating approachingTree" "speed approachingTree = 2"
    "currentMaxSpeed approachingTree = 2"
    by (simp_all add: approachingTree_def drivingState_def initialState_def
        currentMaxSpeed_def normalMaxSpeed_def)
  have g: "isAccelerating boostReleased" "speed boostReleased = 2.2"
    "currentMaxSpeed boostReleased = 2"
    by (simp_all add: boostReleased_def drivingState_def initialState_def
        currentMaxSpeed_def normalMaxSpeed_def)
  from accelerate_speed [of approachingTree quietEnv "carAt (vec 100 0.5 (- 2.8)) 0"]
    accelerate_speed [of boostReleased quietEnv "carAt (vec 0 0.5 0) 0"] f g
  show ?thesis
    by (simp add: acceleration_def)
qed

theorem accelerate_above_ceiling_counterexample:
  "car boostReleased = Some (carAt (vec 0 0.5 0) 0) \<and>
   isAccelerating boostReleased \<and> \<not> isBraking boostReleased \<and>
   \<not> isBoosting boostReleased \<and>
   speed boostReleased = 2.2 \<and>
   speed (updateSpeed quietEnv (carAt (vec 0 0.5 0) 0) boostReleased) = 2 \<and>
   speed (updateCarMovement quietEnv boostReleased) = 2 \<and>
   \<not> speed boostReleased \<le> speed (updateCarMovement quietEnv boostReleased) \<and>
   (accelerate64 normalMaxSpeed ^^ 10) 0 \<noteq> 1"
proof -
  have a: "car boostReleased = Some (carAt (vec 0 0.5 0) 0) \<and>
      isAccelerating boostReleased \<and> \<not> isBraking boostReleased \<and>
      \<not> isBoosting boostReleased \<and>
      speed boostReleased = 2.2 \<and>
      speed (updateSpeed quietEnv (carAt (vec 0 0.5 0) 0) boostReleased) = 2 \<and>
      speed (updateCarMovement quietEnv boostReleased) = 2 \<and>
      \<not> speed boostReleased \<le> speed (updateCarMovement quietEnv boostReleased)"
    by (simp add: boostReleased_def checkCollision_iff example_defs const_defs frame_defs
        Let_def power2_eq_square)
  have b: "(accelerate64 normalMaxSpeed ^^ 10) 0 \<noteq> 1"
    by (simp only: ten_accelerations_binary64) simp
  from a b show ?thesis
    by blast
qed

subsection \<open>The range of the speed over the reachable states\<close>

lemma speed_updateSpeed_range:
  assumes "- 5 \<le> speed st" and "speed st \<le> 10"
  shows "- 5 \<le> speed (updateSpeed env c st) \<and> speed (updateSpeed env c st) \<le> 10"
  using assms
  by (auto simp: speed_updateSpeed currentMaxSpeed_def acceleration_def normalMaxSpeed_def
      boostMaxSpeed_def)

lemma speed_handleVibration [simp]: "speed (handleVibration env st) = speed st"
  by (simp add: handleVibration_def Let_def split: option.split)

lemma speed_updateCarMovement_range:
  assumes "- 5 \<le> speed st" and "speed st \<le> 10"
  shows "- 5 \<le> speed (updateCarMovement env st) \<and> speed (updateCarMovement env st) \<le> 10"
proof (cases "car st")
  case None
  with assms show ?thesis by (simp add: updateCarMovement_def)
next
  case (Some c)
  let ?c5 = "movedCar env c st" and ?st5 = "beforeBoundary env c st"
  note r = speed_updateSpeed_range [OF assms, of env c]
  show ?thesis
  proof (cases "outOfBounds (position ?c5)")
    case True
    then show ?thesis
      by (simp add: respawn_frame [OF Some] respawnCar_def)
  next
    case False
    from checkCollisions_cases [of env "position c" ?c5 "objects st" ?st5]
    have "speed (checkCollisions env (position c) ?c5 (objects st) ?st5)
          = speed (updateSpeed env c st) \<or>
        speed (checkCollisions env (position c) ?c5 (objects st) ?st5)
          = - speed (updateSpeed env c st) * 0.5"
      by (auto simp: collisionResponse_def startVibration_def)
    with r show ?thesis
      by (auto simp: in_bounds_frame [OF Some False])
  qed
qed

lemma speed_animate [simp]: "speed (animate env st) = speed (updateCarMovement env st)"
  by (simp add: animate_def Let_def)

lemma speed_handleKeyDown [simp]: "speed (stateOf (handleKeyDown key st)) = speed st"
  by (simp add: handleKeyDown_def Let_def split: option.split)

lemma speed_handleKeyUp [simp]: "speed (handleKeyUp key st) = speed st"
  by (simp add: handleKeyUp_def)

lemma reachable_frames:
  assumes "reachable trees st" and "list_all validEnv envs"
  shows "reachable trees (frames envs st)"
  using assms by (induction envs arbitrary: st) (simp_all add: reachable.frame)

lemma validEnv_quietEnv: "validEnv quietEnv"
  by (simp add: validEnv_def quietEnv_def)

text \<open>
  C5, as the code has it. The claim as stated fails: the ceiling of the current mode
  bounds the speed only in the speed update of a frame with accelerate or brake held;
  once the boost key is released the speed reached under the boost stays, and a
  coasting car keeps a magnitude above the normal ceiling while friction brings it
  down, with no collision involved. What holds over all reachable states, whatever
  the boost flag: the speed stays between minus half the boosted ceiling and the
  boosted ceiling, \<open>-5 \<le> speed \<le> 10\<close>.
\<close>

theorem speed_in_boost_range:
  assumes "reachable trees st"
  shows "- (boostMaxSpeed / 2) \<le> speed st \<and> speed st \<le> boostMaxSpeed"
proof -
  from assms have "- 5 \<le> speed st \<and> speed st \<le> 10"
  proof (induction rule: reachable.induct)
    case constructed
    show ?case by (simp add: initialState_def)
  next
    case (loaded st)
    then show ?case by (simp add: carLoaded_def)
  next
    case (frame st env)
    then show ?case by (simp add: speed_updateCarMovement_range)
  next
    case (keyDown st key)
    then show ?case by simp
  next
    case (keyUp st key)
    then show ?case by simp
  qed
  then show ?thesis by (simp add: boostMaxSpeed_def)
qed

lemma reachable_reverseKeysUp: "reachable [treeA] reverseKeysUp"
  unfolding reverseKeysUp_def reverseKeysDown_def
  by (intro reachable.keyUp reachable_frames reachable.keyDown reachable.loaded
      reachable.constructed)
    (simp_all add: initialState_def validEnv_quietEnv list_all_iff)

lemma reachable_coastingAfterBoost: "reachable [treeA] coastingAfterBoost"
  unfolding coastingAfterBoost_def
  by (rule reachable.frame [OF reachable_reverseKeysUp validEnv_quietEnv])

lemma reversing_frames:
  assumes "cruising st" and "car st = Some c"
    and "\<not> isAccelerating st" and "isBraking st" and "isBoosting st"
    and "speed st \<le> 5"
    and "- 5 \<le> speed st - real (length envs) / 5"
    and "\<bar>vz (position c)\<bar> + 4 / 5 * real (length envs) \<le> 500"
  shows "speed (frames envs st) = speed st - real (length envs) / 5 \<and>
         cruising (frames envs st) \<and>
         \<not> isAccelerating (frames envs st) \<and> isBraking (frames envs st) \<and>
         isBoosting (frames envs st) \<and>
         (\<exists>c'. car (frames envs st) = Some c' \<and>
            \<bar>vz (position c')\<bar> \<le> \<bar>vz (position c)\<bar> + 4 / 5 * real (length envs))"
  using assms
proof (induction envs arbitrary: st c)
  case Nil
  then show ?case by simp
next
  case (Cons env envs)
  let ?s1 = "speed (updateSpeed env c st)"
  have n0: "0 \<le> real (length envs)"
    by simp
  have len: "real (length (env # envs)) = 1 + real (length envs)"
    by simp
  have p7: "- 5 \<le> speed st - 1 / 5 - real (length envs) / 5"
    using Cons.prems(7) unfolding len by argo
  have s1: "?s1 = speed st - 1 / 5"
    using Cons.prems(3,4,5) p7 n0
    by (simp add: speed_updateSpeed currentMaxSpeed_def acceleration_def boostMaxSpeed_def)
  have bound: "\<bar>?s1\<bar> \<le> 5"
    using Cons.prems(6) p7 n0 unfolding s1 by argo
  have p8: "\<bar>vz (position c)\<bar> + (4 / 5 + 4 / 5 * real (length envs)) \<le> 500"
    using Cons.prems(8) unfolding len by argo
  have inside': "\<bar>vz (position c) + ?s1 * (4 / 25)\<bar> \<le> 500"
    using bound p8 n0 by argo
  have inside: "\<bar>vz (position c) + ?s1 * 0.16\<bar> \<le> boundarySize"
    using inside' by (simp add: boundarySize_def)
  note F = cruising_frame [OF Cons.prems(1,2) inside]
  from F(3) obtain c' where c': "car (animate env st) = Some c'"
    "vz (position c') = vz (position c) + ?s1 * 0.16"
    by blast
  have z1: "\<bar>vz (position c) + ?s1 * (4 / 25)\<bar> \<le> \<bar>vz (position c)\<bar> + 4 / 5"
    using bound by argo
  have z': "\<bar>vz (position c')\<bar> \<le> \<bar>vz (position c)\<bar> + 4 / 5"
    using z1 by (simp add: c'(2))
  have z'': "\<bar>vz (position c')\<bar> + 4 / 5 * real (length envs) \<le> 500"
    using z' p8 by argo
  have IH: "speed (frames envs (animate env st))
        = speed (animate env st) - real (length envs) / 5 \<and>
      cruising (frames envs (animate env st)) \<and>
      \<not> isAccelerating (frames envs (animate env st)) \<and>
      isBraking (frames envs (animate env st)) \<and>
      isBoosting (frames envs (animate env st)) \<and>
      (\<exists>c''. car (frames envs (animate env st)) = Some c'' \<and>
         \<bar>vz (position c'')\<bar> \<le> \<bar>vz (position c')\<bar> + 4 / 5 * real (length envs))"
  proof (rule Cons.IH [OF F(1) c'(1)])
    show "\<not> isAccelerating (animate env st)" using Cons.prems(3) by (simp add: F(4))
    show "isBraking (animate env st)" using Cons.prems(4) by (simp add: F(5))
    show "isBoosting (animate env st)" using Cons.prems(5) by (simp add: F(6))
    show "speed (animate env st) \<le> 5"
      using Cons.prems(6) unfolding F(2) s1 by argo
    show "- 5 \<le> speed (animate env st) - real (length envs) / 5"
      using p7 unfolding F(2) s1 by argo
    show "\<bar>vz (position c')\<bar> + 4 / 5 * real (length envs) \<le> 500"
      by (rule z'')
  qed
  then obtain c'' where c'': "car (frames envs (animate env st)) = Some c''"
    "\<bar>vz (position c'')\<bar> \<le> \<bar>vz (position c')\<bar> + 4 / 5 * real (length envs)"
    by blast
  have zfin: "\<bar>vz (position c'')\<bar>
      \<le> \<bar>vz (position c)\<bar> + 4 / 5 * real (length (env # envs))"
    using c''(2) z' unfolding len by argo
  have "speed (frames envs (animate env st)) = speed st - 1 / 5 - real (length envs) / 5"
    using IH F(2) s1 by simp
  then have "speed (frames envs (animate env st)) = speed st - real (length (env # envs)) / 5"
    unfolding len by argo
  then have sfin: "speed (frames (env # envs) st) = speed st - real (length (env # envs)) / 5"
    by simp
  from IH c''(1) zfin sfin show ?case
    by auto
qed

lemma cruising_handleKeyUp:
  assumes "cruising st"
  shows "cruising (handleKeyUp key st)"
  using assms by (auto simp: cruising_def handleKeyUp_def)

lemma cruising_reverseKeysDown: "cruising reverseKeysDown"
  by (simp add: cruising_def reverseKeysDown_def handleKeyDown_def example_defs)

lemma reverseKeysUp_facts:
  "speed reverseKeysUp = - (11 / 5) \<and> cruising reverseKeysUp \<and>
   \<not> isAccelerating reverseKeysUp \<and> \<not> isBraking reverseKeysUp \<and>
   \<not> isBoosting reverseKeysUp \<and>
   (\<exists>c. car reverseKeysUp = Some c \<and> \<bar>vz (position c)\<bar> \<le> 44 / 5)"
proof -
  let ?st = "reverseKeysDown" and ?envs = "replicate 11 quietEnv"
  have f: "car ?st = Some loadedCar" "\<not> isAccelerating ?st" "isBraking ?st" "isBoosting ?st"
    "speed ?st = 0"
    by (simp_all add: reverseKeysDown_def handleKeyDown_def carLoaded_def initialState_def)
  have R: "speed (frames ?envs ?st) = speed ?st - real (length ?envs) / 5 \<and>
      cruising (frames ?envs ?st) \<and>
      \<not> isAccelerating (frames ?envs ?st) \<and> isBraking (frames ?envs ?st) \<and>
      isBoosting (frames ?envs ?st) \<and>
      (\<exists>c'. car (frames ?envs ?st) = Some c' \<and>
         \<bar>vz (position c')\<bar> \<le> \<bar>vz (position loadedCar)\<bar> + 4 / 5 * real (length ?envs))"
    by (rule reversing_frames [OF cruising_reverseKeysDown f(1-4)])
      (simp_all add: f loadedCar_def vec_def)
  then obtain c' where c': "car (frames ?envs ?st) = Some c'"
    "\<bar>vz (position c')\<bar> \<le> \<bar>vz (position loadedCar)\<bar> + 4 / 5 * real (length ?envs)"
    by blast
  have z: "\<bar>vz (position c')\<bar> \<le> 44 / 5"
    using c'(2) by (simp add: loadedCar_def vec_def)
  have cr: "cruising reverseKeysUp"
    unfolding reverseKeysUp_def using R by (intro cruising_handleKeyUp) blast
  have car: "car reverseKeysUp = Some c'"
    by (simp add: reverseKeysUp_def handleKeyUp_def c'(1))
  have s: "speed reverseKeysUp = - (11 / 5)"
    using R by (simp add: reverseKeysUp_def f)
  have fl: "\<not> isAccelerating reverseKeysUp" "\<not> isBraking reverseKeysUp"
    "\<not> isBoosting reverseKeysUp"
    using R by (simp_all add: reverseKeysUp_def handleKeyUp_def)
  from s cr fl car z show ?thesis
    by blast
qed

lemma coastingAfterBoost_facts:
  "speed coastingAfterBoost = - (209 / 100) \<and> \<not> isBoosting coastingAfterBoost \<and>
   \<not> isVibrating coastingAfterBoost"
proof -
  from reverseKeysUp_facts obtain c where c: "car reverseKeysUp = Some c"
    "\<bar>vz (position c)\<bar> \<le> 44 / 5"
    and cr: "cruising reverseKeysUp"
    and s: "speed reverseKeysUp = - (11 / 5)"
    and fl: "\<not> isAccelerating reverseKeysUp" "\<not> isBraking reverseKeysUp"
      "\<not> isBoosting reverseKeysUp"
    by blast
  have s1: "speed (updateSpeed quietEnv c reverseKeysUp) = - (209 / 100)"
    using fl by (simp add: speed_updateSpeed s)
  have inside': "\<bar>vz (position c) + - (209 / 100) * (4 / 25)\<bar> \<le> 500"
    using c(2) by argo
  have inside: "\<bar>vz (position c) + speed (updateSpeed quietEnv c reverseKeysUp) * 0.16\<bar>
      \<le> boundarySize"
    using inside' by (simp add: s1 boundarySize_def)
  note F = cruising_frame [OF cr c(1) inside]
  from F(1) have "\<not> isVibrating coastingAfterBoost"
    by (simp add: coastingAfterBoost_def cruising_def)
  with F(2,6) fl s1 show ?thesis
    by (simp add: coastingAfterBoost_def)
qed

text \<open>
  The run is a run of the program: the car reverses under the boost for eleven frames
  to speed -2.2, the keys go up, and after one coasting frame the speed is -2.09, the
  boost flag is off, so the ceiling of the mode is 2, and no collision has happened.
\<close>

theorem ceiling_invariant_counterexample:
  "reachable [treeA] coastingAfterBoost \<and>
   \<not> isBoosting coastingAfterBoost \<and> \<not> isVibrating coastingAfterBoost \<and>
   currentMaxSpeed coastingAfterBoost = 2 \<and>
   speed coastingAfterBoost = - 2.09 \<and>
   \<not> \<bar>speed coastingAfterBoost\<bar> \<le> currentMaxSpeed coastingAfterBoost"
  using reachable_coastingAfterBoost coastingAfterBoost_facts
  by (simp add: currentMaxSpeed_def normalMaxSpeed_def)

theorem speed_in_boost_range_witness:
  "reachable [treeA] coastingAfterBoost \<and>
   - 5 \<le> speed coastingAfterBoost \<and> speed coastingAfterBoost \<le> 10"
  using speed_in_boost_range [OF reachable_coastingAfterBoost] reachable_coastingAfterBoost
  by (simp add: boostMaxSpeed_def)

subsection \<open>The queue of boost particles\<close>

lemma removeOldParticles_drop: "removeOldParticles ps = drop (length ps - 12) ps"
proof (induction ps rule: removeOldParticles.induct)
  case (1 ps)
  show ?case
  proof (cases "length ps > 12")
    case True
    then obtain p ps' where ps: "ps = p # ps'"
      by (cases ps) auto
    from True have "removeOldParticles ps = removeOldParticles (tl ps)"
      by (subst removeOldParticles.simps) simp
    also have "\<dots> = drop (length (tl ps) - 12) (tl ps)"
      using True by (rule "1.IH")
    also have "\<dots> = drop (length ps - 12) ps"
    proof -
      from True have "length ps - 12 = Suc (length (tl ps) - 12)"
        by (simp add: ps)
      then show ?thesis
        by (simp add: ps)
    qed
    finally show ?thesis .
  next
    case False
    then show ?thesis
      by (subst removeOldParticles.simps) simp
  qed
qed

lemma length_removeOldParticles: "length (removeOldParticles ps) \<le> 12"
  by (simp add: removeOldParticles_drop)

lemma cleanupParticles_filter:
  "cleanupParticles ps = map fade (filter (\<lambda>p. 0 < opacity p - 0.15) ps)"
  by (induction ps) (auto simp: Let_def fade_def)

lemma length_cleanupParticles: "length (cleanupParticles ps) \<le> length ps"
  by (simp add: cleanupParticles_filter)

lemma cleanupParticles_append:
  "cleanupParticles (ps @ qs) = cleanupParticles ps @ cleanupParticles qs"
  by (simp add: cleanupParticles_filter)

lemma boostParticles_updateSpeed:
  "boostParticles (updateSpeed env c st) =
     (if isAccelerating st \<and> isBoosting st \<and>
         min (speed st + acceleration) (currentMaxSpeed st) > normalMaxSpeed
      then removeOldParticles (boostParticles st @ [leftFlame env c, rightFlame env c])
      else boostParticles st)"
  by (simp add: updateSpeed_def createBoostEffect_def Let_def)

lemma boostParticles_handleVibration [simp]:
  "boostParticles (handleVibration env st) = boostParticles st"
  by (simp add: handleVibration_def Let_def split: option.split)

lemma boostParticles_checkCollisions [simp]:
  "boostParticles (checkCollisions env prev c os st) = boostParticles st"
  by (induction os) (simp_all add: collisionResponse_def startVibration_def)

lemma boostParticles_updateCarMovement:
  "boostParticles (updateCarMovement env st) =
     (case car st of
        None \<Rightarrow> boostParticles st
      | Some c \<Rightarrow> cleanupParticles (boostParticles (updateSpeed env c st)))"
  by (simp add: updateCarMovement_def respawnCar_def Let_def split: option.split)

lemma boostParticles_animate [simp]:
  "boostParticles (animate env st) = boostParticles (updateCarMovement env st)"
  by (simp add: animate_def Let_def)

lemma boostParticles_handleKeyDown [simp]:
  "boostParticles (stateOf (handleKeyDown key st)) = boostParticles st"
  by (simp add: handleKeyDown_def Let_def split: option.split)

lemma boostParticles_handleKeyUp [simp]:
  "boostParticles (handleKeyUp key st) = boostParticles st"
  by (simp add: handleKeyUp_def)

lemma length_boostParticles_frame:
  assumes "length (boostParticles st) \<le> 12"
  shows "length (boostParticles (updateCarMovement env st)) \<le> 12"
proof (cases "car st")
  case None
  with assms show ?thesis by (simp add: boostParticles_updateCarMovement)
next
  case (Some c)
  have "length (boostParticles (updateSpeed env c st)) \<le> 12"
    using assms by (simp add: boostParticles_updateSpeed length_removeOldParticles)
  with length_cleanupParticles [of "boostParticles (updateSpeed env c st)"]
  show ?thesis
    by (simp add: boostParticles_updateCarMovement Some)
qed

text \<open>
  C7. In every reachable state the queue holds at most 12 particles. When
  \<open>createBoostEffect\<close> has appended its two flames, the loop that enforces the cap
  drops particles from the front of the queue, the oldest first, and keeps the last
  12. The tick of a frame lowers the opacity of every particle by 0.15, a strict
  decrease, and multiplies its scale by 0.95; it keeps, in order, exactly the particles
  whose lowered opacity is still positive, and removes those whose opacity has
  reached 0 or less.
\<close>

theorem boost_particle_queue:
  "(reachable trees st \<longrightarrow> length (boostParticles st) \<le> 12) \<and>
   boostParticles (createBoostEffect env c st) =
     drop (length (boostParticles st) + 2 - 12)
       (boostParticles st @ [leftFlame env c, rightFlame env c]) \<and>
   cleanupParticles ps = map fade (filter (\<lambda>p. \<not> opacity (fade p) \<le> 0) ps) \<and>
   opacity (fade p) = opacity p - 0.15 \<and> opacity (fade p) < opacity p \<and>
   scale (fade p) = multiplyScalar (scale p) 0.95 \<and>
   position (fade p) = position p"
proof -
  have inv: "length (boostParticles st) \<le> 12" if "reachable trees st"
    using that
  proof (induction rule: reachable.induct)
    case constructed
    show ?case by (simp add: initialState_def)
  next
    case (loaded st)
    then show ?case by (simp add: carLoaded_def)
  next
    case (frame st env)
    then show ?case by (simp add: length_boostParticles_frame)
  next
    case (keyDown st key)
    then show ?case by simp
  next
    case (keyUp st key)
    then show ?case by simp
  qed
  have evict: "boostParticles (createBoostEffect env c st) =
      drop (length (boostParticles st) + 2 - 12)
        (boostParticles st @ [leftFlame env c, rightFlame env c])"
    by (simp add: createBoostEffect_def removeOldParticles_drop)
  have tick: "cleanupParticles ps = map fade (filter (\<lambda>p. \<not> opacity (fade p) \<le> 0) ps)"
    by (simp add: cleanupParticles_filter fade_def not_le)
  have f: "opacity (fade p) = opacity p - 0.15" "opacity (fade p) < opacity p"
    "scale (fade p) = multiplyScalar (scale p) 0.95" "position (fade p) = position p"
    by (simp_all add: fade_def)
  from inv evict tick f show ?thesis
    by blast
qed

theorem boost_particle_queue_witness:
  "reachable [treeA] coastingAfterBoost \<and>
   length (boostParticles coastingAfterBoost) \<le> 12 \<and>
   boostParticles (createBoostEffect quietEnv loadedCar
       (boostAccelerating\<lparr>boostParticles := fullQueue\<rparr>))
     = drop 2 fullQueue @ [leftFlame quietEnv loadedCar, rightFlame quietEnv loadedCar] \<and>
   cleanupParticles [flameAt (vec 0 1 0) 0.8, flameAt (vec 0 2 0) 0.15, flameAt (vec 0 3 0) 0.2]
     = [fade (flameAt (vec 0 1 0) 0.8), fade (flameAt (vec 0 3 0) 0.2)] \<and>
   opacity (fade (flameAt (vec 0 1 0) 0.8)) = 0.65"
proof -
  note T = boost_particle_queue [where trees = "[treeA]" and st = coastingAfterBoost
      and ps = "[flameAt (vec 0 1 0) 0.8, flameAt (vec 0 2 0) 0.15, flameAt (vec 0 3 0) 0.2]"
      and p = "flameAt (vec 0 1 0) 0.8"]
  note T' = boost_particle_queue [where st = "boostAccelerating\<lparr>boostParticles := fullQueue\<rparr>"
      and env = quietEnv and c = loadedCar, THEN conjunct2, THEN conjunct1]
  have len: "length fullQueue = 12"
    by (simp add: fullQueue_def)
  have q: "boostParticles (boostAccelerating\<lparr>boostParticles := fullQueue\<rparr>) = fullQueue"
    by simp
  have o: "opacity (flameAt (vec 0 1 0) 0.8) = 0.8"
    by (simp add: flameAt_def)
  have k: "filter (\<lambda>p. \<not> opacity (fade p) \<le> 0)
      [flameAt (vec 0 1 0) 0.8, flameAt (vec 0 2 0) 0.15, flameAt (vec 0 3 0) 0.2]
      = [flameAt (vec 0 1 0) 0.8, flameAt (vec 0 3 0) 0.2]"
    by (simp add: fade_def flameAt_def)
  from T T' reachable_coastingAfterBoost show ?thesis
    unfolding q k o by (simp add: len)
qed

subsection \<open>Spawning the flames\<close>

lemma drop_cap_append:
  "drop (length ps + 2 - 12) (ps @ [l, r]) = drop (length ps - 10) ps @ [l, r]"
proof -
  have "length ps + 2 - 12 = length ps - 10"
    by simp
  then show ?thesis
    by simp
qed

lemma fade_new_flames:
  "cleanupParticles [leftFlame env c, rightFlame env c]
     = [fade (leftFlame env c), fade (rightFlame env c)]"
  by (simp add: cleanupParticles_filter leftFlame_def rightFlame_def Let_def)

text \<open>
  C8, as the code has it. The claim as stated fails: the flames are spawned inside the
  accelerating branch of the speed update only, so a frame on which the car is
  boosting above the normal ceiling without accelerate held spawns none. What holds,
  with the car loaded: on every frame with accelerate held, the boost flag set and the
  updated speed above the normal ceiling, exactly two flames, left then right, are
  appended to the queue (the cap dropping the oldest), and at the end of the frame
  they are the last two of the queue, faded once by the tick of the same frame; on
  every other frame none is appended. The flames start with opacity 0.8, at the
  position of the car before this frame's translation plus an offset that depends on
  the heading only, and with a scale \<open>(0.8 + 0.4 * random, 0.8 + 0.4 * random, 1)\<close>,
  so between 0.8 and 1.2 in x and y.
\<close>

theorem boost_flames_spawned:
  assumes "car st = Some c"
  shows "(isAccelerating st \<and> isBoosting st \<and> normalMaxSpeed < speed (updateSpeed env c st) \<longrightarrow>
            boostParticles (updateSpeed env c st) =
              drop (length (boostParticles st) - 10) (boostParticles st)
                @ [leftFlame env c, rightFlame env c] \<and>
            boostParticles (updateCarMovement env st) =
              cleanupParticles (drop (length (boostParticles st) - 10) (boostParticles st))
                @ [fade (leftFlame env c), fade (rightFlame env c)]) \<and>
         (\<not> (isAccelerating st \<and> isBoosting st \<and>
              normalMaxSpeed < speed (updateSpeed env c st)) \<longrightarrow>
            boostParticles (updateSpeed env c st) = boostParticles st \<and>
            boostParticles (updateCarMovement env st) = cleanupParticles (boostParticles st)) \<and>
         position (leftFlame env c) =
           add (position c)
             (vec (- sin (vy (rotation c)) * 1.2 - cos (vy (rotation c)) * 0.4) 0.3
                  (- cos (vy (rotation c)) * 1.2 + sin (vy (rotation c)) * 0.4)) \<and>
         position (rightFlame env c) =
           add (position c)
             (vec (- sin (vy (rotation c)) * 1.0 + cos (vy (rotation c)) * 0.35) 0.3
                  (- cos (vy (rotation c)) * 1.0 - sin (vy (rotation c)) * 0.35)) \<and>
         opacity (leftFlame env c) = 0.8 \<and> opacity (rightFlame env c) = 0.8 \<and>
         scale (leftFlame env c) = vec (0.8 + randLeftX env * 0.4) (0.8 + randLeftY env * 0.4) 1 \<and>
         scale (rightFlame env c) =
           vec (0.8 + randRightX env * 0.4) (0.8 + randRightY env * 0.4) 1 \<and>
         (validEnv env \<longrightarrow>
            0.8 \<le> vx (scale (leftFlame env c)) \<and> vx (scale (leftFlame env c)) < 1.2 \<and>
            0.8 \<le> vy (scale (leftFlame env c)) \<and> vy (scale (leftFlame env c)) < 1.2 \<and>
            0.8 \<le> vx (scale (rightFlame env c)) \<and> vx (scale (rightFlame env c)) < 1.2 \<and>
            0.8 \<le> vy (scale (rightFlame env c)) \<and> vy (scale (rightFlame env c)) < 1.2)"
proof -
  let ?spawn = "isAccelerating st \<and> isBoosting st \<and>
      normalMaxSpeed < speed (updateSpeed env c st)"
  have cond: "?spawn \<longleftrightarrow>
      isAccelerating st \<and> isBoosting st \<and>
      min (speed st + acceleration) (currentMaxSpeed st) > normalMaxSpeed"
    by (auto simp: speed_updateSpeed)
  have U: "boostParticles (updateCarMovement env st)
      = cleanupParticles (boostParticles (updateSpeed env c st))"
    by (simp add: boostParticles_updateCarMovement assms)
  have yes: "boostParticles (updateSpeed env c st) =
        drop (length (boostParticles st) - 10) (boostParticles st)
          @ [leftFlame env c, rightFlame env c] \<and>
      boostParticles (updateCarMovement env st) =
        cleanupParticles (drop (length (boostParticles st) - 10) (boostParticles st))
          @ [fade (leftFlame env c), fade (rightFlame env c)]" if ?spawn
  proof -
    from that cond have y: "isAccelerating st \<and> isBoosting st \<and>
        min (speed st + acceleration) (currentMaxSpeed st) > normalMaxSpeed"
      by blast
    have p: "boostParticles (updateSpeed env c st) =
        removeOldParticles (boostParticles st @ [leftFlame env c, rightFlame env c])"
      unfolding boostParticles_updateSpeed using y by (rule if_P)
    then have p': "boostParticles (updateSpeed env c st) =
        drop (length (boostParticles st) - 10) (boostParticles st)
          @ [leftFlame env c, rightFlame env c]"
      by (simp add: removeOldParticles_drop drop_cap_append)
    show ?thesis
      unfolding U p' by (simp only: cleanupParticles_append fade_new_flames simp_thms)
  qed
  have no: "boostParticles (updateSpeed env c st) = boostParticles st \<and>
      boostParticles (updateCarMovement env st) = cleanupParticles (boostParticles st)"
    if "\<not> ?spawn"
  proof -
    from that cond have n: "\<not> (isAccelerating st \<and> isBoosting st \<and>
        min (speed st + acceleration) (currentMaxSpeed st) > normalMaxSpeed)"
      by blast
    have "boostParticles (updateSpeed env c st) = boostParticles st"
      unfolding boostParticles_updateSpeed using n by (rule if_not_P)
    then show ?thesis
      unfolding U by simp
  qed
  have geo: "position (leftFlame env c) =
      add (position c)
        (vec (- sin (vy (rotation c)) * 1.2 - cos (vy (rotation c)) * 0.4) 0.3
             (- cos (vy (rotation c)) * 1.2 + sin (vy (rotation c)) * 0.4))"
    "position (rightFlame env c) =
      add (position c)
        (vec (- sin (vy (rotation c)) * 1.0 + cos (vy (rotation c)) * 0.35) 0.3
             (- cos (vy (rotation c)) * 1.0 - sin (vy (rotation c)) * 0.35))"
    "opacity (leftFlame env c) = 0.8" "opacity (rightFlame env c) = 0.8"
    "scale (leftFlame env c) = vec (0.8 + randLeftX env * 0.4) (0.8 + randLeftY env * 0.4) 1"
    "scale (rightFlame env c) = vec (0.8 + randRightX env * 0.4) (0.8 + randRightY env * 0.4) 1"
    by (simp_all add: leftFlame_def rightFlame_def Let_def)
  have rng: "0.8 \<le> vx (scale (leftFlame env c)) \<and> vx (scale (leftFlame env c)) < 1.2 \<and>
      0.8 \<le> vy (scale (leftFlame env c)) \<and> vy (scale (leftFlame env c)) < 1.2 \<and>
      0.8 \<le> vx (scale (rightFlame env c)) \<and> vx (scale (rightFlame env c)) < 1.2 \<and>
      0.8 \<le> vy (scale (rightFlame env c)) \<and> vy (scale (rightFlame env c)) < 1.2"
    if "validEnv env"
    using that by (simp add: validEnv_def leftFlame_def rightFlame_def Let_def vec_def)
  from yes no geo rng show ?thesis
    by blast
qed

theorem boost_flames_spawned_witness:
  "car boostAccelerating = Some (carAt (vec 0 0.5 0) 0) \<and>
   isAccelerating boostAccelerating \<and> isBoosting boostAccelerating \<and>
   normalMaxSpeed < speed (updateSpeed quietEnv (carAt (vec 0 0.5 0) 0) boostAccelerating) \<and>
   validEnv quietEnv \<and>
   boostParticles boostAccelerating = [] \<and>
   boostParticles (updateCarMovement quietEnv boostAccelerating) =
     [\<lparr>position = vec (- 0.4) 0.8 (- 1.2), rotation = vec pi 0 0,
       scale = vec 0.76 0.76 0.95, opacity = 0.65\<rparr>,
      \<lparr>position = vec 0.35 0.8 (- 1), rotation = vec pi 0 0,
       scale = vec 0.76 0.76 0.95, opacity = 0.65\<rparr>] \<and>
   vx (scale (leftFlame quietEnv (carAt (vec 0 0.5 0) 0))) = 0.8"
proof -
  let ?c = "carAt (vec 0 0.5 0) 0"
  have h: "car boostAccelerating = Some ?c"
    by (simp add: boostAccelerating_def boostCoasting_def drivingState_def)
  have f: "isAccelerating boostAccelerating" "isBoosting boostAccelerating"
    "boostParticles boostAccelerating = []"
    by (simp_all add: boostAccelerating_def boostCoasting_def drivingState_def initialState_def)
  have s: "normalMaxSpeed < speed (updateSpeed quietEnv ?c boostAccelerating)"
    by (simp add: speed_updateSpeed boostAccelerating_def boostCoasting_def drivingState_def
        initialState_def currentMaxSpeed_def const_defs)
  have l: "fade (leftFlame quietEnv ?c) =
      \<lparr>position = vec (- 0.4) 0.8 (- 1.2), rotation = vec pi 0 0,
       scale = vec 0.76 0.76 0.95, opacity = 0.65\<rparr>"
    by (simp add: fade_def leftFlame_def example_defs Let_def)
  have r: "fade (rightFlame quietEnv ?c) =
      \<lparr>position = vec 0.35 0.8 (- 1), rotation = vec pi 0 0,
       scale = vec 0.76 0.76 0.95, opacity = 0.65\<rparr>"
    by (simp add: fade_def rightFlame_def example_defs Let_def)
  have x: "vec (0.8 + randLeftX quietEnv * 0.4) (0.8 + randLeftY quietEnv * 0.4) 1
      = vec 0.8 0.8 1"
    by (simp add: quietEnv_def)
  from boost_flames_spawned [OF h, of quietEnv] f s validEnv_quietEnv h
  show ?thesis
    unfolding l r x by (simp add: vec_def)
qed

theorem boost_without_accelerate_counterexample:
  "car boostCoasting = Some (carAt (vec 0 0.5 0) 0) \<and>
   isBoosting boostCoasting \<and> \<not> isAccelerating boostCoasting \<and>
   normalMaxSpeed < speed boostCoasting \<and>
   speed (updateCarMovement quietEnv boostCoasting) = 4.75 \<and>
   normalMaxSpeed < speed (updateCarMovement quietEnv boostCoasting) \<and>
   isBoosting (updateCarMovement quietEnv boostCoasting) \<and>
   boostParticles boostCoasting = [] \<and>
   boostParticles (updateCarMovement quietEnv boostCoasting) = []"
  by (simp add: boostCoasting_def checkCollision_iff example_defs const_defs frame_defs
      Let_def power2_eq_square)

subsection \<open>The state a frame leaves, field by field\<close>

lemma movedCar_explicit:
  assumes "s1 = (if isAccelerating st then min (speed st + acceleration) (currentMaxSpeed st)
                 else if isBraking st
                   then max (speed st - acceleration * 2) (- currentMaxSpeed st / 2)
                 else if \<bar>speed st\<bar> > 0.01 then speed st * 0.95 else 0)"
    and "h1 = vy (rotation c)
                + (if isTurningLeft st then turnSpeed * (\<bar>s1\<bar> / maxSpeed) else 0)
                - (if isTurningRight st then turnSpeed * (\<bar>s1\<bar> / maxSpeed) else 0)"
    and "p1 = (position c)\<lparr>vx := vx (position c) + sin h1 * (s1 * 0.16),
                            vz := vz (position c) + cos h1 * (s1 * 0.16)\<rparr>"
  shows "speed (updateSpeed env c st) = s1"
    and "movedCar env c st = c\<lparr>position := p1, rotation := (rotation c)\<lparr>vy := h1\<rparr>\<rparr>"
proof -
  show s: "speed (updateSpeed env c st) = s1"
    by (simp add: assms(1) speed_updateSpeed)
  have h: "vy (rotation (updateRotation (updateSpeed env c st) c)) = h1"
    by (simp add: heading_updateRotation s assms(2))
  have r: "rotation (updateRotation (updateSpeed env c st) c) = (rotation c)\<lparr>vy := h1\<rparr>"
    using h by (simp add: updateRotation_def turnLeft_def turnRight_def Let_def)
  have q: "position (updateRotation (updateSpeed env c st) c) = position c"
    "scale (updateRotation (updateSpeed env c st) c) = scale c"
    by (simp_all add: updateRotation_def turnLeft_def turnRight_def Let_def)
  show "movedCar env c st = c\<lparr>position := p1, rotation := (rotation c)\<lparr>vy := h1\<rparr>\<rparr>"
    by (rule Object3D.equality)
      (simp_all add: movedCar_def moveForward_def Let_def s r q assms(3))
qed

lemma updateSpeed_explicit:
  "updateSpeed env c st =
     st\<lparr>speed := speed (updateSpeed env c st),
        boostParticles := boostParticles (updateSpeed env c st)\<rparr>"
  by (simp add: updateSpeed_def createBoostEffect_def Let_def)

lemma beforeBoundary_explicit:
  assumes "cp = (if \<not> isOrbitMode st
                 then lerp (cameraPosition st)
                        (add (position (movedCar env c st))
                           (vec (- sin (vy (rotation (movedCar env c st))) * 15) 7
                                (- cos (vy (rotation (movedCar env c st))) * 15))) 0.1
                 else orbitControlsUpdate env (position (movedCar env c st)) (cameraPosition st))"
    and "cl = (if \<not> isOrbitMode st
               then vec (vx (position (movedCar env c st))
                           + sin (vy (rotation (movedCar env c st))) * 10)
                        (vy (position (movedCar env c st)))
                        (vz (position (movedCar env c st))
                           + cos (vy (rotation (movedCar env c st))) * 10)
               else position (movedCar env c st))"
  shows "beforeBoundary env c st =
           st\<lparr>car := Some (movedCar env c st),
              speed := speed (updateSpeed env c st),
              cameraPosition := cp, cameraLookAt := cl,
              orbitEnabled := isOrbitMode st,
              orbitTarget := (if isOrbitMode st then position (movedCar env c st)
                              else orbitTarget st),
              boostParticles := cleanupParticles (boostParticles (updateSpeed env c st))\<rparr>"
proof -
  let ?st1 = "updateSpeed env c st"
  have m: "moveForward ?st1 (updateRotation ?st1 c) = movedCar env c st"
    by (simp add: movedCar_def Let_def)
  show ?thesis
    unfolding beforeBoundary_def Let_def m
    by (subst updateSpeed_explicit)
      (simp add: updateCameraByMode_def Let_def chaseOffset_def assms)
qed

lemma beforeBoundary_named:
  assumes s1: "s1 = (if isAccelerating st
                      then min (speed st + acceleration) (currentMaxSpeed st)
                    else if isBraking st
                      then max (speed st - acceleration * 2) (- currentMaxSpeed st / 2)
                    else if \<bar>speed st\<bar> > 0.01 then speed st * 0.95 else 0)"
    and h1: "h1 = vy (rotation c)
                    + (if isTurningLeft st then turnSpeed * (\<bar>s1\<bar> / maxSpeed) else 0)
                    - (if isTurningRight st then turnSpeed * (\<bar>s1\<bar> / maxSpeed) else 0)"
    and p1: "p1 = (position c)\<lparr>vx := vx (position c) + sin h1 * (s1 * 0.16),
                                vz := vz (position c) + cos h1 * (s1 * 0.16)\<rparr>"
    and cp: "cp = (if \<not> isOrbitMode st
                    then lerp (cameraPosition st)
                           (add p1 (vec (- sin h1 * 15) 7 (- cos h1 * 15))) 0.1
                    else orbitControlsUpdate env p1 (cameraPosition st))"
    and cl: "cl = (if \<not> isOrbitMode st
                    then vec (vx p1 + sin h1 * 10) (vy p1) (vz p1 + cos h1 * 10)
                    else p1)"
    and ps: "ps = cleanupParticles
                    (if isAccelerating st \<and> isBoosting st \<and> normalMaxSpeed < s1
                     then removeOldParticles
                            (boostParticles st @ [leftFlame env c, rightFlame env c])
                     else boostParticles st)"
  shows "beforeBoundary env c st =
           st\<lparr>car := Some (c\<lparr>position := p1, rotation := (rotation c)\<lparr>vy := h1\<rparr>\<rparr>),
              speed := s1,
              cameraPosition := cp, cameraLookAt := cl,
              orbitEnabled := isOrbitMode st,
              orbitTarget := (if isOrbitMode st then p1 else orbitTarget st),
              boostParticles := ps\<rparr>"
proof -
  note m = movedCar_explicit [OF s1 h1 p1, of env]
  have q: "position (movedCar env c st) = p1" "vy (rotation (movedCar env c st)) = h1"
    by (simp_all add: m(2))
  have b: "cleanupParticles (boostParticles (updateSpeed env c st)) = ps"
  proof (cases "isAccelerating st")
    case True
    then have "s1 = min (speed st + acceleration) (currentMaxSpeed st)"
      by (simp add: s1)
    with True show ?thesis
      by (simp add: ps boostParticles_updateSpeed)
  next
    case False
    then show ?thesis
      by (simp add: ps boostParticles_updateSpeed)
  qed
  have "beforeBoundary env c st =
      st\<lparr>car := Some (movedCar env c st),
         speed := speed (updateSpeed env c st),
         cameraPosition := cp, cameraLookAt := cl,
         orbitEnabled := isOrbitMode st,
         orbitTarget := (if isOrbitMode st then position (movedCar env c st)
                         else orbitTarget st),
         boostParticles := cleanupParticles (boostParticles (updateSpeed env c st))\<rparr>"
    by (rule beforeBoundary_explicit) (simp_all only: q cp cl)
  then show ?thesis
    unfolding q b m(1) unfolding m(2) .
qed

lemma checkCollisions_some_hit:
  assumes "\<exists>object\<in>set os. checkCollision (position c) (position object)"
  shows "checkCollisions env prev c os st = collisionResponse env prev c st"
  using assms by (induction os) auto

lemma respawn_state:
  assumes car: "car st = Some c"
    and s1: "s1 = (if isAccelerating st
                      then min (speed st + acceleration) (currentMaxSpeed st)
                    else if isBraking st
                      then max (speed st - acceleration * 2) (- currentMaxSpeed st / 2)
                    else if \<bar>speed st\<bar> > 0.01 then speed st * 0.95 else 0)"
    and h1: "h1 = vy (rotation c)
                    + (if isTurningLeft st then turnSpeed * (\<bar>s1\<bar> / maxSpeed) else 0)
                    - (if isTurningRight st then turnSpeed * (\<bar>s1\<bar> / maxSpeed) else 0)"
    and p1: "p1 = (position c)\<lparr>vx := vx (position c) + sin h1 * (s1 * 0.16),
                                vz := vz (position c) + cos h1 * (s1 * 0.16)\<rparr>"
    and cp: "cp = (if \<not> isOrbitMode st
                    then lerp (cameraPosition st)
                           (add p1 (vec (- sin h1 * 15) 7 (- cos h1 * 15))) 0.1
                    else orbitControlsUpdate env p1 (cameraPosition st))"
    and cl: "cl = (if \<not> isOrbitMode st
                    then vec (vx p1 + sin h1 * 10) (vy p1) (vz p1 + cos h1 * 10)
                    else p1)"
    and ps: "ps = cleanupParticles
                    (if isAccelerating st \<and> isBoosting st \<and> normalMaxSpeed < s1
                     then removeOldParticles
                            (boostParticles st @ [leftFlame env c, rightFlame env c])
                     else boostParticles st)"
    and out: "outOfBounds p1"
  shows "updateCarMovement env st =
           st\<lparr>car := Some (c\<lparr>position := spawnPoint, rotation := vec 0 0 0\<rparr>),
              speed := 0,
              isVibrating := False,
              cameraPosition := cp, cameraLookAt := cl,
              orbitEnabled := isOrbitMode st,
              orbitTarget := (if isOrbitMode st then p1 else orbitTarget st),
              boostParticles := ps\<rparr>"
proof -
  note m = movedCar_explicit(2) [OF s1 h1 p1, of env]
  note bb = beforeBoundary_named [OF s1 h1 p1 cp cl ps]
  have "outOfBounds (position (movedCar env c st))"
    using out by (simp add: m)
  then have "updateCarMovement env st = respawnCar (movedCar env c st) (beforeBoundary env c st)"
    by (rule respawn_frame [OF car])
  then show ?thesis
    unfolding m bb by (simp add: respawnCar_def)
qed

lemma hit_state:
  assumes car: "car st = Some c"
    and s1: "s1 = (if isAccelerating st
                      then min (speed st + acceleration) (currentMaxSpeed st)
                    else if isBraking st
                      then max (speed st - acceleration * 2) (- currentMaxSpeed st / 2)
                    else if \<bar>speed st\<bar> > 0.01 then speed st * 0.95 else 0)"
    and h1: "h1 = vy (rotation c)
                    + (if isTurningLeft st then turnSpeed * (\<bar>s1\<bar> / maxSpeed) else 0)
                    - (if isTurningRight st then turnSpeed * (\<bar>s1\<bar> / maxSpeed) else 0)"
    and p1: "p1 = (position c)\<lparr>vx := vx (position c) + sin h1 * (s1 * 0.16),
                                vz := vz (position c) + cos h1 * (s1 * 0.16)\<rparr>"
    and cp: "cp = (if \<not> isOrbitMode st
                    then lerp (cameraPosition st)
                           (add p1 (vec (- sin h1 * 15) 7 (- cos h1 * 15))) 0.1
                    else orbitControlsUpdate env p1 (cameraPosition st))"
    and cl: "cl = (if \<not> isOrbitMode st
                    then vec (vx p1 + sin h1 * 10) (vy p1) (vz p1 + cos h1 * 10)
                    else p1)"
    and ps: "ps = cleanupParticles
                    (if isAccelerating st \<and> isBoosting st \<and> normalMaxSpeed < s1
                     then removeOldParticles
                            (boostParticles st @ [leftFlame env c, rightFlame env c])
                     else boostParticles st)"
    and inside: "\<not> outOfBounds p1"
    and hit: "\<exists>object\<in>set (objects st). checkCollision p1 (position object)"
  shows "updateCarMovement env st =
           st\<lparr>car := Some (c\<lparr>position :=
                              (if nowVibration env - nowStart env < vibrationDuration
                               then (position c)\<lparr>vx := vx (position c) + (randVibX env - 0.5) * vibrationIntensity,
                              vy := vy (position c) + (randVibY env - 0.5) * vibrationIntensity\<rparr>
                               else position c),
                            rotation := (rotation c)\<lparr>vy := h1\<rparr>\<rparr>),
              speed := - s1 * 0.5,
              isVibrating := (nowVibration env - nowStart env < vibrationDuration),
              vibrationTime := nowStart env,
              cameraPosition := cp, cameraLookAt := cl,
              orbitEnabled := isOrbitMode st,
              orbitTarget := (if isOrbitMode st then p1 else orbitTarget st),
              boostParticles := ps\<rparr>"
proof -
  note m = movedCar_explicit(2) [OF s1 h1 p1, of env]
  note bb = beforeBoundary_named [OF s1 h1 p1 cp cl ps]
  have pm: "position (movedCar env c st) = p1"
    by (simp add: m)
  have i: "\<not> outOfBounds (position (movedCar env c st))"
    using inside by (simp add: pm)
  have "checkCollisions env (position c) (movedCar env c st) (objects st)
      (beforeBoundary env c st)
      = collisionResponse env (position c) (movedCar env c st) (beforeBoundary env c st)"
    by (rule checkCollisions_some_hit) (use hit in \<open>simp add: pm\<close>)
  then have "updateCarMovement env st =
      handleVibration env
        (collisionResponse env (position c) (movedCar env c st) (beforeBoundary env c st))"
    by (simp add: in_bounds_frame [OF car i])
  then show ?thesis
    unfolding m bb
    by (simp add: handleVibration_def collisionResponse_def startVibration_def Let_def)
qed

lemma no_hit_state:
  assumes car: "car st = Some c"
    and s1: "s1 = (if isAccelerating st
                      then min (speed st + acceleration) (currentMaxSpeed st)
                    else if isBraking st
                      then max (speed st - acceleration * 2) (- currentMaxSpeed st / 2)
                    else if \<bar>speed st\<bar> > 0.01 then speed st * 0.95 else 0)"
    and h1: "h1 = vy (rotation c)
                    + (if isTurningLeft st then turnSpeed * (\<bar>s1\<bar> / maxSpeed) else 0)
                    - (if isTurningRight st then turnSpeed * (\<bar>s1\<bar> / maxSpeed) else 0)"
    and p1: "p1 = (position c)\<lparr>vx := vx (position c) + sin h1 * (s1 * 0.16),
                                vz := vz (position c) + cos h1 * (s1 * 0.16)\<rparr>"
    and cp: "cp = (if \<not> isOrbitMode st
                    then lerp (cameraPosition st)
                           (add p1 (vec (- sin h1 * 15) 7 (- cos h1 * 15))) 0.1
                    else orbitControlsUpdate env p1 (cameraPosition st))"
    and cl: "cl = (if \<not> isOrbitMode st
                    then vec (vx p1 + sin h1 * 10) (vy p1) (vz p1 + cos h1 * 10)
                    else p1)"
    and ps: "ps = cleanupParticles
                    (if isAccelerating st \<and> isBoosting st \<and> normalMaxSpeed < s1
                     then removeOldParticles
                            (boostParticles st @ [leftFlame env c, rightFlame env c])
                     else boostParticles st)"
    and inside: "\<not> outOfBounds p1"
    and clear: "\<forall>object\<in>set (objects st). \<not> checkCollision p1 (position object)"
  shows "updateCarMovement env st =
           st\<lparr>car := Some (c\<lparr>position :=
                              (if isVibrating st \<and>
                                  nowVibration env - vibrationTime st < vibrationDuration
                               then p1\<lparr>vx := vx (p1) + (randVibX env - 0.5) * vibrationIntensity,
                              vy := vy (p1) + (randVibY env - 0.5) * vibrationIntensity\<rparr>
                               else p1),
                            rotation := (rotation c)\<lparr>vy := h1\<rparr>\<rparr>),
              speed := s1,
              isVibrating :=
                (isVibrating st \<and> nowVibration env - vibrationTime st < vibrationDuration),
              cameraPosition := cp, cameraLookAt := cl,
              orbitEnabled := isOrbitMode st,
              orbitTarget := (if isOrbitMode st then p1 else orbitTarget st),
              boostParticles := ps\<rparr>"
proof -
  note m = movedCar_explicit(2) [OF s1 h1 p1, of env]
  note bb = beforeBoundary_named [OF s1 h1 p1 cp cl ps]
  have pm: "position (movedCar env c st) = p1"
    by (simp add: m)
  have i: "\<not> outOfBounds (position (movedCar env c st))"
    using inside by (simp add: pm)
  have "checkCollisions env (position c) (movedCar env c st) (objects st)
      (beforeBoundary env c st) = beforeBoundary env c st"
    by (rule checkCollisions_no_hit) (use clear in \<open>simp add: pm\<close>)
  then have "updateCarMovement env st = handleVibration env (beforeBoundary env c st)"
    by (simp add: in_bounds_frame [OF car i])
  then show ?thesis
    unfolding m bb
    by (auto simp: handleVibration_def Let_def)
qed

subsection \<open>The order of the blocks of a frame\<close>

text \<open>
  C3, as the code has it. The claim as stated fails: in \<open>updateCarMovement\<close> the camera
  update and the particle clean-up come before the boundary test, and the boundary
  test comes before the collision loop. What holds, with the car loaded, is the
  following order, read off the state a frame leaves. The speed update comes first
  (\<open>s1\<close>; the flames are appended inside its accelerating branch, at the position and
  heading the car has before this frame moves it). The turn uses the updated speed
  (\<open>h1\<close>). The translation uses the turned heading and the updated speed (\<open>p1\<close>). The
  camera is updated for the translated position and the turned heading (\<open>cp\<close>, \<open>cl\<close>),
  and the particles are faded and cleaned up after the spawn (\<open>ps\<close>), on every frame.
  Then the boundary is tested on the translated position: out of bounds, the car is
  respawned and neither the collision loop nor the vibration block runs, whatever
  obstacle is in reach. Inside the boundary the collision loop runs, and the vibration
  block runs after it: with an obstacle in reach the position is the captured one, the
  speed is the updated speed times -0.5, and the vibration started in this frame
  already shifts x and y; with none in reach the speed is the updated speed and only a
  vibration started earlier shifts the translated position.
\<close>

theorem frame_order:
  assumes car: "car st = Some c"
    and s1: "s1 = (if isAccelerating st
                      then min (speed st + acceleration) (currentMaxSpeed st)
                    else if isBraking st
                      then max (speed st - acceleration * 2) (- currentMaxSpeed st / 2)
                    else if \<bar>speed st\<bar> > 0.01 then speed st * 0.95 else 0)"
    and h1: "h1 = vy (rotation c)
                    + (if isTurningLeft st then turnSpeed * (\<bar>s1\<bar> / maxSpeed) else 0)
                    - (if isTurningRight st then turnSpeed * (\<bar>s1\<bar> / maxSpeed) else 0)"
    and p1: "p1 = (position c)\<lparr>vx := vx (position c) + sin h1 * (s1 * 0.16),
                                vz := vz (position c) + cos h1 * (s1 * 0.16)\<rparr>"
    and cp: "cp = (if \<not> isOrbitMode st
                    then lerp (cameraPosition st)
                           (add p1 (vec (- sin h1 * 15) 7 (- cos h1 * 15))) 0.1
                    else orbitControlsUpdate env p1 (cameraPosition st))"
    and cl: "cl = (if \<not> isOrbitMode st
                    then vec (vx p1 + sin h1 * 10) (vy p1) (vz p1 + cos h1 * 10)
                    else p1)"
    and ps: "ps = cleanupParticles
                    (if isAccelerating st \<and> isBoosting st \<and> normalMaxSpeed < s1
                     then removeOldParticles
                            (boostParticles st @ [leftFlame env c, rightFlame env c])
                     else boostParticles st)"
  shows "(outOfBounds p1 \<longrightarrow>
            updateCarMovement env st =
              st\<lparr>car := Some (c\<lparr>position := spawnPoint, rotation := vec 0 0 0\<rparr>),
                 speed := 0,
                 isVibrating := False,
                 cameraPosition := cp, cameraLookAt := cl,
                 orbitEnabled := isOrbitMode st,
                 orbitTarget := (if isOrbitMode st then p1 else orbitTarget st),
                 boostParticles := ps\<rparr>) \<and>
         (\<not> outOfBounds p1 \<and>
          (\<exists>object\<in>set (objects st). checkCollision p1 (position object)) \<longrightarrow>
            updateCarMovement env st =
              st\<lparr>car := Some (c\<lparr>position :=
                                 (if nowVibration env - nowStart env < vibrationDuration
                                  then (position c)\<lparr>vx := vx (position c) + (randVibX env - 0.5) * vibrationIntensity,
                                 vy := vy (position c) + (randVibY env - 0.5) * vibrationIntensity\<rparr>
                                  else position c),
                               rotation := (rotation c)\<lparr>vy := h1\<rparr>\<rparr>),
                 speed := - s1 * 0.5,
                 isVibrating := (nowVibration env - nowStart env < vibrationDuration),
                 vibrationTime := nowStart env,
                 cameraPosition := cp, cameraLookAt := cl,
                 orbitEnabled := isOrbitMode st,
                 orbitTarget := (if isOrbitMode st then p1 else orbitTarget st),
                 boostParticles := ps\<rparr>) \<and>
         (\<not> outOfBounds p1 \<and>
          (\<forall>object\<in>set (objects st). \<not> checkCollision p1 (position object)) \<longrightarrow>
            updateCarMovement env st =
              st\<lparr>car := Some (c\<lparr>position :=
                                 (if isVibrating st \<and>
                                     nowVibration env - vibrationTime st < vibrationDuration
                                  then p1\<lparr>vx := vx (p1) + (randVibX env - 0.5) * vibrationIntensity,
                                 vy := vy (p1) + (randVibY env - 0.5) * vibrationIntensity\<rparr>
                                  else p1),
                               rotation := (rotation c)\<lparr>vy := h1\<rparr>\<rparr>),
                 speed := s1,
                 isVibrating :=
                   (isVibrating st \<and> nowVibration env - vibrationTime st < vibrationDuration),
                 cameraPosition := cp, cameraLookAt := cl,
                 orbitEnabled := isOrbitMode st,
                 orbitTarget := (if isOrbitMode st then p1 else orbitTarget st),
                 boostParticles := ps\<rparr>)"
proof (intro conjI impI)
  assume "outOfBounds p1"
  then show "updateCarMovement env st =
      st\<lparr>car := Some (c\<lparr>position := spawnPoint, rotation := vec 0 0 0\<rparr>),
              speed := 0,
              isVibrating := False,
              cameraPosition := cp, cameraLookAt := cl,
              orbitEnabled := isOrbitMode st,
              orbitTarget := (if isOrbitMode st then p1 else orbitTarget st),
              boostParticles := ps\<rparr>"
    by (rule respawn_state [OF car s1 h1 p1 cp cl ps])
next
  assume a: "\<not> outOfBounds p1 \<and>
      (\<exists>object\<in>set (objects st). checkCollision p1 (position object))"
  show "updateCarMovement env st =
      st\<lparr>car := Some (c\<lparr>position :=
                              (if nowVibration env - nowStart env < vibrationDuration
                               then (position c)\<lparr>vx := vx (position c) + (randVibX env - 0.5) * vibrationIntensity,
                              vy := vy (position c) + (randVibY env - 0.5) * vibrationIntensity\<rparr>
                               else position c),
                            rotation := (rotation c)\<lparr>vy := h1\<rparr>\<rparr>),
              speed := - s1 * 0.5,
              isVibrating := (nowVibration env - nowStart env < vibrationDuration),
              vibrationTime := nowStart env,
              cameraPosition := cp, cameraLookAt := cl,
              orbitEnabled := isOrbitMode st,
              orbitTarget := (if isOrbitMode st then p1 else orbitTarget st),
              boostParticles := ps\<rparr>"
    by (rule hit_state [OF car s1 h1 p1 cp cl ps]) (use a in blast)+
next
  assume a: "\<not> outOfBounds p1 \<and>
      (\<forall>object\<in>set (objects st). \<not> checkCollision p1 (position object))"
  show "updateCarMovement env st =
      st\<lparr>car := Some (c\<lparr>position :=
                              (if isVibrating st \<and>
                                  nowVibration env - vibrationTime st < vibrationDuration
                               then p1\<lparr>vx := vx (p1) + (randVibX env - 0.5) * vibrationIntensity,
                              vy := vy (p1) + (randVibY env - 0.5) * vibrationIntensity\<rparr>
                               else p1),
                            rotation := (rotation c)\<lparr>vy := h1\<rparr>\<rparr>),
              speed := s1,
              isVibrating :=
                (isVibrating st \<and> nowVibration env - vibrationTime st < vibrationDuration),
              cameraPosition := cp, cameraLookAt := cl,
              orbitEnabled := isOrbitMode st,
              orbitTarget := (if isOrbitMode st then p1 else orbitTarget st),
              boostParticles := ps\<rparr>"
    by (rule no_hit_state [OF car s1 h1 p1 cp cl ps]) (use a in blast)+
qed

theorem frame_order_witness:
  "car overEdgeWithFlame = Some (carAt (vec 102.499 0.5 (- 499.9)) 0) \<and>
   (- 1 = (if isAccelerating overEdgeWithFlame
            then min (speed overEdgeWithFlame + acceleration) (currentMaxSpeed overEdgeWithFlame)
          else if isBraking overEdgeWithFlame
            then max (speed overEdgeWithFlame - acceleration * 2) (- currentMaxSpeed overEdgeWithFlame / 2)
          else if \<bar>speed overEdgeWithFlame\<bar> > 0.01 then speed overEdgeWithFlame * 0.95 else 0)) \<and>
   (0 = vy (rotation (carAt (vec 102.499 0.5 (- 499.9)) 0))
          + (if isTurningLeft overEdgeWithFlame then turnSpeed * (\<bar>- 1\<bar> / maxSpeed) else 0)
          - (if isTurningRight overEdgeWithFlame then turnSpeed * (\<bar>- 1\<bar> / maxSpeed) else 0)) \<and>
   (vec 102.499 0.5 (- 500.06) = (position (carAt (vec 102.499 0.5 (- 499.9)) 0))\<lparr>vx := vx (position (carAt (vec 102.499 0.5 (- 499.9)) 0)) + sin 0 * (- 1 * 0.16),
          vz := vz (position (carAt (vec 102.499 0.5 (- 499.9)) 0)) + cos 0 * (- 1 * 0.16)\<rparr>) \<and>
   (vec 10.2499 9.75 (- 69.506) = (if \<not> isOrbitMode overEdgeWithFlame
          then lerp (cameraPosition overEdgeWithFlame)
                 (add (vec 102.499 0.5 (- 500.06)) (vec (- sin 0 * 15) 7 (- cos 0 * 15))) 0.1
          else orbitControlsUpdate quietEnv (vec 102.499 0.5 (- 500.06)) (cameraPosition overEdgeWithFlame))) \<and>
   (vec 102.499 0.5 (- 490.06) = (if \<not> isOrbitMode overEdgeWithFlame
          then vec (vx (vec 102.499 0.5 (- 500.06)) + sin 0 * 10) (vy (vec 102.499 0.5 (- 500.06))) (vz (vec 102.499 0.5 (- 500.06)) + cos 0 * 10)
          else vec 102.499 0.5 (- 500.06))) \<and>
   ([\<lparr>position = vec 102.499 0.8 (- 498), rotation = vec pi 0 0, scale = vec 0.95 0.95 0.95, opacity = 0.65\<rparr>] = cleanupParticles
          (if isAccelerating overEdgeWithFlame \<and> isBoosting overEdgeWithFlame \<and> normalMaxSpeed < - 1
           then removeOldParticles
                  (boostParticles overEdgeWithFlame @ [leftFlame quietEnv (carAt (vec 102.499 0.5 (- 499.9)) 0), rightFlame quietEnv (carAt (vec 102.499 0.5 (- 499.9)) 0)])
           else boostParticles overEdgeWithFlame)) \<and>
   outOfBounds (vec 102.499 0.5 (- 500.06)) \<and>
   checkCollision (vec 102.499 0.5 (- 500.06)) (position treeEdge) \<and>
   car (updateCarMovement quietEnv overEdgeWithFlame) = Some (carAt (vec 0 0.5 0) 0) \<and>
   speed (updateCarMovement quietEnv overEdgeWithFlame) = 0 \<and>
   \<not> isVibrating (updateCarMovement quietEnv overEdgeWithFlame) \<and>
   vibrationTime (updateCarMovement quietEnv overEdgeWithFlame) = 0 \<and>
   cameraPosition (updateCarMovement quietEnv overEdgeWithFlame) = vec 10.2499 9.75 (- 69.506) \<and>
   boostParticles (updateCarMovement quietEnv overEdgeWithFlame) =
     [\<lparr>position = vec 102.499 0.8 (- 498), rotation = vec pi 0 0,
       scale = vec 0.95 0.95 0.95, opacity = 0.65\<rparr>] \<and>
   car turningIntoTree = Some (carAt (vec 100 0.5 (- 2.8)) (- 0.011875)) \<and>
   (2.85 = (if isAccelerating turningIntoTree
            then min (speed turningIntoTree + acceleration) (currentMaxSpeed turningIntoTree)
          else if isBraking turningIntoTree
            then max (speed turningIntoTree - acceleration * 2) (- currentMaxSpeed turningIntoTree / 2)
          else if \<bar>speed turningIntoTree\<bar> > 0.01 then speed turningIntoTree * 0.95 else 0)) \<and>
   (0 = vy (rotation (carAt (vec 100 0.5 (- 2.8)) (- 0.011875)))
          + (if isTurningLeft turningIntoTree then turnSpeed * (\<bar>2.85\<bar> / maxSpeed) else 0)
          - (if isTurningRight turningIntoTree then turnSpeed * (\<bar>2.85\<bar> / maxSpeed) else 0)) \<and>
   (vec 100 0.5 (- 2.344) = (position (carAt (vec 100 0.5 (- 2.8)) (- 0.011875)))\<lparr>vx := vx (position (carAt (vec 100 0.5 (- 2.8)) (- 0.011875))) + sin 0 * (2.85 * 0.16),
          vz := vz (position (carAt (vec 100 0.5 (- 2.8)) (- 0.011875))) + cos 0 * (2.85 * 0.16)\<rparr>) \<and>
   (vec 10 9.75 (- 19.7344) = (if \<not> isOrbitMode turningIntoTree
          then lerp (cameraPosition turningIntoTree)
                 (add (vec 100 0.5 (- 2.344)) (vec (- sin 0 * 15) 7 (- cos 0 * 15))) 0.1
          else orbitControlsUpdate quietEnv (vec 100 0.5 (- 2.344)) (cameraPosition turningIntoTree))) \<and>
   (vec 100 0.5 7.656 = (if \<not> isOrbitMode turningIntoTree
          then vec (vx (vec 100 0.5 (- 2.344)) + sin 0 * 10) (vy (vec 100 0.5 (- 2.344))) (vz (vec 100 0.5 (- 2.344)) + cos 0 * 10)
          else vec 100 0.5 (- 2.344))) \<and>
   ([] = cleanupParticles
          (if isAccelerating turningIntoTree \<and> isBoosting turningIntoTree \<and> normalMaxSpeed < 2.85
           then removeOldParticles
                  (boostParticles turningIntoTree @ [leftFlame quietEnv (carAt (vec 100 0.5 (- 2.8)) (- 0.011875)), rightFlame quietEnv (carAt (vec 100 0.5 (- 2.8)) (- 0.011875))])
           else boostParticles turningIntoTree)) \<and>
   \<not> outOfBounds (vec 100 0.5 (- 2.344)) \<and>
   checkCollision (vec 100 0.5 (- 2.344)) (position treeA) \<and>
   car (updateCarMovement quietEnv turningIntoTree) = Some (carAt (vec 99.95 0.45 (- 2.8)) 0) \<and>
   speed (updateCarMovement quietEnv turningIntoTree) = - 1.425 \<and>
   isVibrating (updateCarMovement quietEnv turningIntoTree) \<and>
   cameraPosition (updateCarMovement quietEnv turningIntoTree) = vec 10 9.75 (- 19.7344)"
proof -
  have acar: "car overEdgeWithFlame = Some (carAt (vec 102.499 0.5 (- 499.9)) 0)"
    by (simp add: overEdgeWithFlame_def reversingOverEdge_def example_defs const_defs currentMaxSpeed_def chaseOffset_def fade_def)
  have as: "- 1 = (if isAccelerating overEdgeWithFlame
                then min (speed overEdgeWithFlame + acceleration) (currentMaxSpeed overEdgeWithFlame)
              else if isBraking overEdgeWithFlame
                then max (speed overEdgeWithFlame - acceleration * 2) (- currentMaxSpeed overEdgeWithFlame / 2)
              else if \<bar>speed overEdgeWithFlame\<bar> > 0.01 then speed overEdgeWithFlame * 0.95 else 0)"
    by (simp add: overEdgeWithFlame_def reversingOverEdge_def example_defs const_defs currentMaxSpeed_def chaseOffset_def fade_def)
  have ah: "0 = vy (rotation (carAt (vec 102.499 0.5 (- 499.9)) 0))
              + (if isTurningLeft overEdgeWithFlame then turnSpeed * (\<bar>- 1\<bar> / maxSpeed) else 0)
              - (if isTurningRight overEdgeWithFlame then turnSpeed * (\<bar>- 1\<bar> / maxSpeed) else 0)"
    by (simp add: overEdgeWithFlame_def reversingOverEdge_def example_defs const_defs currentMaxSpeed_def chaseOffset_def fade_def)
  have ap: "vec 102.499 0.5 (- 500.06) = (position (carAt (vec 102.499 0.5 (- 499.9)) 0))\<lparr>vx := vx (position (carAt (vec 102.499 0.5 (- 499.9)) 0)) + sin 0 * (- 1 * 0.16),
              vz := vz (position (carAt (vec 102.499 0.5 (- 499.9)) 0)) + cos 0 * (- 1 * 0.16)\<rparr>"
    by (simp add: overEdgeWithFlame_def reversingOverEdge_def example_defs const_defs currentMaxSpeed_def chaseOffset_def fade_def)
  have acp: "vec 10.2499 9.75 (- 69.506) = (if \<not> isOrbitMode overEdgeWithFlame
              then lerp (cameraPosition overEdgeWithFlame)
                     (add (vec 102.499 0.5 (- 500.06)) (vec (- sin 0 * 15) 7 (- cos 0 * 15))) 0.1
              else orbitControlsUpdate quietEnv (vec 102.499 0.5 (- 500.06)) (cameraPosition overEdgeWithFlame))"
    by (simp add: overEdgeWithFlame_def reversingOverEdge_def example_defs const_defs currentMaxSpeed_def chaseOffset_def fade_def)
  have acl: "vec 102.499 0.5 (- 490.06) = (if \<not> isOrbitMode overEdgeWithFlame
              then vec (vx (vec 102.499 0.5 (- 500.06)) + sin 0 * 10) (vy (vec 102.499 0.5 (- 500.06))) (vz (vec 102.499 0.5 (- 500.06)) + cos 0 * 10)
              else vec 102.499 0.5 (- 500.06))"
    by (simp add: overEdgeWithFlame_def reversingOverEdge_def example_defs const_defs currentMaxSpeed_def chaseOffset_def fade_def)
  have aps: "[\<lparr>position = vec 102.499 0.8 (- 498), rotation = vec pi 0 0, scale = vec 0.95 0.95 0.95, opacity = 0.65\<rparr>] = cleanupParticles
              (if isAccelerating overEdgeWithFlame \<and> isBoosting overEdgeWithFlame \<and> normalMaxSpeed < - 1
               then removeOldParticles
                      (boostParticles overEdgeWithFlame @ [leftFlame quietEnv (carAt (vec 102.499 0.5 (- 499.9)) 0), rightFlame quietEnv (carAt (vec 102.499 0.5 (- 499.9)) 0)])
               else boostParticles overEdgeWithFlame)"
    by (simp add: overEdgeWithFlame_def reversingOverEdge_def example_defs const_defs currentMaxSpeed_def chaseOffset_def fade_def)
  have aout: "outOfBounds (vec 102.499 0.5 (- 500.06))"
    by (simp add: outOfBounds_def vec_def boundarySize_def)
  have areach: "checkCollision (vec 102.499 0.5 (- 500.06)) (position treeEdge)"
    by (simp add: checkCollision_iff example_defs power2_eq_square)
  note A = frame_order [OF acar as ah ap acp acl aps, THEN conjunct1, THEN mp, OF aout]
  have a1: "car (updateCarMovement quietEnv overEdgeWithFlame) = Some (carAt (vec 0 0.5 0) 0)"
    unfolding A by (simp add: example_defs spawnPoint_def)
  have a2: "speed (updateCarMovement quietEnv overEdgeWithFlame) = 0"
    "\<not> isVibrating (updateCarMovement quietEnv overEdgeWithFlame)"
    "cameraPosition (updateCarMovement quietEnv overEdgeWithFlame) = vec 10.2499 9.75 (- 69.506)"
    "boostParticles (updateCarMovement quietEnv overEdgeWithFlame) =
       [\<lparr>position = vec 102.499 0.8 (- 498), rotation = vec pi 0 0,
         scale = vec 0.95 0.95 0.95, opacity = 0.65\<rparr>]"
    unfolding A by simp_all
  have a3: "vibrationTime (updateCarMovement quietEnv overEdgeWithFlame) = 0"
    unfolding A
    by (simp add: overEdgeWithFlame_def reversingOverEdge_def drivingState_def initialState_def)
  have bcar: "car turningIntoTree = Some (carAt (vec 100 0.5 (- 2.8)) (- 0.011875))"
    by (simp add: turningIntoTree_def example_defs const_defs currentMaxSpeed_def chaseOffset_def fade_def)
  have bs: "2.85 = (if isAccelerating turningIntoTree
                then min (speed turningIntoTree + acceleration) (currentMaxSpeed turningIntoTree)
              else if isBraking turningIntoTree
                then max (speed turningIntoTree - acceleration * 2) (- currentMaxSpeed turningIntoTree / 2)
              else if \<bar>speed turningIntoTree\<bar> > 0.01 then speed turningIntoTree * 0.95 else 0)"
    by (simp add: turningIntoTree_def example_defs const_defs currentMaxSpeed_def chaseOffset_def fade_def)
  have bh: "0 = vy (rotation (carAt (vec 100 0.5 (- 2.8)) (- 0.011875)))
              + (if isTurningLeft turningIntoTree then turnSpeed * (\<bar>2.85\<bar> / maxSpeed) else 0)
              - (if isTurningRight turningIntoTree then turnSpeed * (\<bar>2.85\<bar> / maxSpeed) else 0)"
    by (simp add: turningIntoTree_def example_defs const_defs currentMaxSpeed_def chaseOffset_def fade_def)
  have bp: "vec 100 0.5 (- 2.344) = (position (carAt (vec 100 0.5 (- 2.8)) (- 0.011875)))\<lparr>vx := vx (position (carAt (vec 100 0.5 (- 2.8)) (- 0.011875))) + sin 0 * (2.85 * 0.16),
              vz := vz (position (carAt (vec 100 0.5 (- 2.8)) (- 0.011875))) + cos 0 * (2.85 * 0.16)\<rparr>"
    by (simp add: turningIntoTree_def example_defs const_defs currentMaxSpeed_def chaseOffset_def fade_def)
  have bcp: "vec 10 9.75 (- 19.7344) = (if \<not> isOrbitMode turningIntoTree
              then lerp (cameraPosition turningIntoTree)
                     (add (vec 100 0.5 (- 2.344)) (vec (- sin 0 * 15) 7 (- cos 0 * 15))) 0.1
              else orbitControlsUpdate quietEnv (vec 100 0.5 (- 2.344)) (cameraPosition turningIntoTree))"
    by (simp add: turningIntoTree_def example_defs const_defs currentMaxSpeed_def chaseOffset_def fade_def)
  have bcl: "vec 100 0.5 7.656 = (if \<not> isOrbitMode turningIntoTree
              then vec (vx (vec 100 0.5 (- 2.344)) + sin 0 * 10) (vy (vec 100 0.5 (- 2.344))) (vz (vec 100 0.5 (- 2.344)) + cos 0 * 10)
              else vec 100 0.5 (- 2.344))"
    by (simp add: turningIntoTree_def example_defs const_defs currentMaxSpeed_def chaseOffset_def fade_def)
  have bps: "[] = cleanupParticles
              (if isAccelerating turningIntoTree \<and> isBoosting turningIntoTree \<and> normalMaxSpeed < 2.85
               then removeOldParticles
                      (boostParticles turningIntoTree @ [leftFlame quietEnv (carAt (vec 100 0.5 (- 2.8)) (- 0.011875)), rightFlame quietEnv (carAt (vec 100 0.5 (- 2.8)) (- 0.011875))])
               else boostParticles turningIntoTree)"
    by (simp add: turningIntoTree_def example_defs const_defs currentMaxSpeed_def chaseOffset_def fade_def)
  have bin: "\<not> outOfBounds (vec 100 0.5 (- 2.344))"
    by (simp add: outOfBounds_def vec_def boundarySize_def)
  have breach: "checkCollision (vec 100 0.5 (- 2.344)) (position treeA)"
    by (simp add: checkCollision_iff example_defs power2_eq_square)
  have bhit: "\<not> outOfBounds (vec 100 0.5 (- 2.344)) \<and>
      (\<exists>object\<in>set (objects turningIntoTree).
         checkCollision (vec 100 0.5 (- 2.344)) (position object))"
    using bin breach
    by (simp add: turningIntoTree_def drivingState_def initialState_def)
  note B = frame_order [OF bcar bs bh bp bcp bcl bps, THEN conjunct2, THEN conjunct1,
      THEN mp, OF bhit]
  have b1: "car (updateCarMovement quietEnv turningIntoTree)
      = Some (carAt (vec 99.95 0.45 (- 2.8)) 0)"
    unfolding B by (simp add: example_defs const_defs)
  have b2: "speed (updateCarMovement quietEnv turningIntoTree) = - 1.425"
    "isVibrating (updateCarMovement quietEnv turningIntoTree)"
    "cameraPosition (updateCarMovement quietEnv turningIntoTree) = vec 10 9.75 (- 19.7344)"
    unfolding B by (simp_all add: quietEnv_def vibrationDuration_def)
  show ?thesis
    by (intro conjI acar as ah ap acp acl aps aout areach a1 a2 a3
        bcar bs bh bp bcp bcl bps bin breach b1 b2)
qed

theorem respawn_frame_counterexample:
  "outOfBounds
     (position (movedCar quietEnv (carAt (vec 102.499 0.5 (- 499.9)) 0) overEdgeWithFlame)) \<and>
   checkCollision
     (position (movedCar quietEnv (carAt (vec 102.499 0.5 (- 499.9)) 0) overEdgeWithFlame))
     (position treeEdge) \<and>
   objects overEdgeWithFlame = [treeEdge] \<and>
   car (updateCarMovement quietEnv overEdgeWithFlame) = Some (carAt spawnPoint 0) \<and>
   speed (updateCarMovement quietEnv overEdgeWithFlame) = 0 \<and>
   \<not> isVibrating (updateCarMovement quietEnv overEdgeWithFlame) \<and>
   cameraPosition overEdgeWithFlame = vec 0 10 (- 20) \<and>
   cameraPosition (updateCarMovement quietEnv overEdgeWithFlame)
     = vec 10.2499 9.75 (- 69.506) \<and>
   map opacity (boostParticles overEdgeWithFlame) = [0.8] \<and>
   map opacity (boostParticles (updateCarMovement quietEnv overEdgeWithFlame)) = [0.65]"
  by (simp add: overEdgeWithFlame_def reversingOverEdge_def checkCollision_iff example_defs
      const_defs frame_defs Let_def power2_eq_square)

subsection \<open>What a colliding frame restores\<close>

text \<open>
  C10, as the code has it. The claim as stated fails: at the end of a colliding frame
  the position is not the one captured at the start, because the vibration that the
  response starts shifts x and y in the same frame; and with the right flag held the
  turn is subtracted from the heading, not added. What holds, on a frame whose
  translated position is inside the boundary and in reach of an obstacle: the frame
  leaves the state below. The response restores the position only; z is the captured
  one, and x and y are the captured ones plus \<open>(random - 0.5) * 0.1\<close> each when fewer
  than 1000 ms have elapsed since the response, the captured ones otherwise. The
  heading keeps the turn of this frame, computed from the updated speed: plus
  \<open>turnSpeed * (|speed| / maxSpeed)\<close> with the left flag held, minus the same with the
  right flag held. The speed is the updated speed negated and halved. The vibration
  flag and time are set, not restored. The camera and the particles keep what the frame
  computed for the translated position, and every other field, \<open>isBoosting\<close> and the key
  flags among them, is the one the frame started with.
\<close>

theorem collision_frame_state:
  assumes car: "car st = Some c"
    and s1: "s1 = (if isAccelerating st
                      then min (speed st + acceleration) (currentMaxSpeed st)
                    else if isBraking st
                      then max (speed st - acceleration * 2) (- currentMaxSpeed st / 2)
                    else if \<bar>speed st\<bar> > 0.01 then speed st * 0.95 else 0)"
    and h1: "h1 = vy (rotation c)
                    + (if isTurningLeft st then turnSpeed * (\<bar>s1\<bar> / maxSpeed) else 0)
                    - (if isTurningRight st then turnSpeed * (\<bar>s1\<bar> / maxSpeed) else 0)"
    and p1: "p1 = (position c)\<lparr>vx := vx (position c) + sin h1 * (s1 * 0.16),
                                vz := vz (position c) + cos h1 * (s1 * 0.16)\<rparr>"
    and cp: "cp = (if \<not> isOrbitMode st
                    then lerp (cameraPosition st)
                           (add p1 (vec (- sin h1 * 15) 7 (- cos h1 * 15))) 0.1
                    else orbitControlsUpdate env p1 (cameraPosition st))"
    and cl: "cl = (if \<not> isOrbitMode st
                    then vec (vx p1 + sin h1 * 10) (vy p1) (vz p1 + cos h1 * 10)
                    else p1)"
    and ps: "ps = cleanupParticles
                    (if isAccelerating st \<and> isBoosting st \<and> normalMaxSpeed < s1
                     then removeOldParticles
                            (boostParticles st @ [leftFlame env c, rightFlame env c])
                     else boostParticles st)"
    and inside: "\<not> outOfBounds p1"
    and hit: "\<exists>object\<in>set (objects st). checkCollision p1 (position object)"
  shows "updateCarMovement env st =
           st\<lparr>car := Some (c\<lparr>position :=
                              (if nowVibration env - nowStart env < vibrationDuration
                               then (position c)\<lparr>vx := vx (position c) + (randVibX env - 0.5) * vibrationIntensity,
                              vy := vy (position c) + (randVibY env - 0.5) * vibrationIntensity\<rparr>
                               else position c),
                            rotation := (rotation c)\<lparr>vy := h1\<rparr>\<rparr>),
              speed := - s1 * 0.5,
              isVibrating := (nowVibration env - nowStart env < vibrationDuration),
              vibrationTime := nowStart env,
              cameraPosition := cp, cameraLookAt := cl,
              orbitEnabled := isOrbitMode st,
              orbitTarget := (if isOrbitMode st then p1 else orbitTarget st),
              boostParticles := ps\<rparr>"
  by (rule hit_state [OF car s1 h1 p1 cp cl ps inside hit])

theorem collision_frame_state_witness:
  "car turningIntoTree = Some (carAt (vec 100 0.5 (- 2.8)) (- 0.011875)) \<and>
   (2.85 = (if isAccelerating turningIntoTree
            then min (speed turningIntoTree + acceleration) (currentMaxSpeed turningIntoTree)
          else if isBraking turningIntoTree
            then max (speed turningIntoTree - acceleration * 2) (- currentMaxSpeed turningIntoTree / 2)
          else if \<bar>speed turningIntoTree\<bar> > 0.01 then speed turningIntoTree * 0.95 else 0)) \<and>
   (0 = vy (rotation (carAt (vec 100 0.5 (- 2.8)) (- 0.011875)))
          + (if isTurningLeft turningIntoTree then turnSpeed * (\<bar>2.85\<bar> / maxSpeed) else 0)
          - (if isTurningRight turningIntoTree then turnSpeed * (\<bar>2.85\<bar> / maxSpeed) else 0)) \<and>
   (vec 100 0.5 (- 2.344) = (position (carAt (vec 100 0.5 (- 2.8)) (- 0.011875)))\<lparr>vx := vx (position (carAt (vec 100 0.5 (- 2.8)) (- 0.011875))) + sin 0 * (2.85 * 0.16),
          vz := vz (position (carAt (vec 100 0.5 (- 2.8)) (- 0.011875))) + cos 0 * (2.85 * 0.16)\<rparr>) \<and>
   (vec 10 9.75 (- 19.7344) = (if \<not> isOrbitMode turningIntoTree
          then lerp (cameraPosition turningIntoTree)
                 (add (vec 100 0.5 (- 2.344)) (vec (- sin 0 * 15) 7 (- cos 0 * 15))) 0.1
          else orbitControlsUpdate quietEnv (vec 100 0.5 (- 2.344)) (cameraPosition turningIntoTree))) \<and>
   (vec 100 0.5 7.656 = (if \<not> isOrbitMode turningIntoTree
          then vec (vx (vec 100 0.5 (- 2.344)) + sin 0 * 10) (vy (vec 100 0.5 (- 2.344))) (vz (vec 100 0.5 (- 2.344)) + cos 0 * 10)
          else vec 100 0.5 (- 2.344))) \<and>
   ([] = cleanupParticles
          (if isAccelerating turningIntoTree \<and> isBoosting turningIntoTree \<and> normalMaxSpeed < 2.85
           then removeOldParticles
                  (boostParticles turningIntoTree @ [leftFlame quietEnv (carAt (vec 100 0.5 (- 2.8)) (- 0.011875)), rightFlame quietEnv (carAt (vec 100 0.5 (- 2.8)) (- 0.011875))])
           else boostParticles turningIntoTree)) \<and>
   \<not> outOfBounds (vec 100 0.5 (- 2.344)) \<and>
   checkCollision (vec 100 0.5 (- 2.344)) (position treeA) \<and>
   updateCarMovement quietEnv turningIntoTree =
     turningIntoTree
       \<lparr>car := Some (carAt (vec 99.95 0.45 (- 2.8)) 0),
        speed := - 1.425,
        isVibrating := True,
        vibrationTime := 0,
        cameraPosition := vec 10 9.75 (- 19.7344),
        cameraLookAt := vec 100 0.5 7.656,
        orbitEnabled := False,
        orbitTarget := vec 0 0 0,
        boostParticles := []\<rparr>"
proof -
  have bcar: "car turningIntoTree = Some (carAt (vec 100 0.5 (- 2.8)) (- 0.011875))"
    by (simp add: turningIntoTree_def example_defs const_defs currentMaxSpeed_def chaseOffset_def fade_def)
  have bs: "2.85 = (if isAccelerating turningIntoTree
                then min (speed turningIntoTree + acceleration) (currentMaxSpeed turningIntoTree)
              else if isBraking turningIntoTree
                then max (speed turningIntoTree - acceleration * 2) (- currentMaxSpeed turningIntoTree / 2)
              else if \<bar>speed turningIntoTree\<bar> > 0.01 then speed turningIntoTree * 0.95 else 0)"
    by (simp add: turningIntoTree_def example_defs const_defs currentMaxSpeed_def chaseOffset_def fade_def)
  have bh: "0 = vy (rotation (carAt (vec 100 0.5 (- 2.8)) (- 0.011875)))
              + (if isTurningLeft turningIntoTree then turnSpeed * (\<bar>2.85\<bar> / maxSpeed) else 0)
              - (if isTurningRight turningIntoTree then turnSpeed * (\<bar>2.85\<bar> / maxSpeed) else 0)"
    by (simp add: turningIntoTree_def example_defs const_defs currentMaxSpeed_def chaseOffset_def fade_def)
  have bp: "vec 100 0.5 (- 2.344) = (position (carAt (vec 100 0.5 (- 2.8)) (- 0.011875)))\<lparr>vx := vx (position (carAt (vec 100 0.5 (- 2.8)) (- 0.011875))) + sin 0 * (2.85 * 0.16),
              vz := vz (position (carAt (vec 100 0.5 (- 2.8)) (- 0.011875))) + cos 0 * (2.85 * 0.16)\<rparr>"
    by (simp add: turningIntoTree_def example_defs const_defs currentMaxSpeed_def chaseOffset_def fade_def)
  have bcp: "vec 10 9.75 (- 19.7344) = (if \<not> isOrbitMode turningIntoTree
              then lerp (cameraPosition turningIntoTree)
                     (add (vec 100 0.5 (- 2.344)) (vec (- sin 0 * 15) 7 (- cos 0 * 15))) 0.1
              else orbitControlsUpdate quietEnv (vec 100 0.5 (- 2.344)) (cameraPosition turningIntoTree))"
    by (simp add: turningIntoTree_def example_defs const_defs currentMaxSpeed_def chaseOffset_def fade_def)
  have bcl: "vec 100 0.5 7.656 = (if \<not> isOrbitMode turningIntoTree
              then vec (vx (vec 100 0.5 (- 2.344)) + sin 0 * 10) (vy (vec 100 0.5 (- 2.344))) (vz (vec 100 0.5 (- 2.344)) + cos 0 * 10)
              else vec 100 0.5 (- 2.344))"
    by (simp add: turningIntoTree_def example_defs const_defs currentMaxSpeed_def chaseOffset_def fade_def)
  have bps: "[] = cleanupParticles
              (if isAccelerating turningIntoTree \<and> isBoosting turningIntoTree \<and> normalMaxSpeed < 2.85
               then removeOldParticles
                      (boostParticles turningIntoTree @ [leftFlame quietEnv (carAt (vec 100 0.5 (- 2.8)) (- 0.011875)), rightFlame quietEnv (carAt (vec 100 0.5 (- 2.8)) (- 0.011875))])
               else boostParticles turningIntoTree)"
    by (simp add: turningIntoTree_def example_defs const_defs currentMaxSpeed_def chaseOffset_def fade_def)
  have bin: "\<not> outOfBounds (vec 100 0.5 (- 2.344))"
    by (simp add: outOfBounds_def vec_def boundarySize_def)
  have breach: "checkCollision (vec 100 0.5 (- 2.344)) (position treeA)"
    by (simp add: checkCollision_iff example_defs power2_eq_square)
  have bhit: "\<exists>object\<in>set (objects turningIntoTree).
      checkCollision (vec 100 0.5 (- 2.344)) (position object)"
    using breach by (simp add: turningIntoTree_def drivingState_def initialState_def)
  note B = collision_frame_state [OF bcar bs bh bp bcp bcl bps bin bhit]
  have f: "\<not> isOrbitMode turningIntoTree" "orbitTarget turningIntoTree = vec 0 0 0"
    by (simp_all add: turningIntoTree_def drivingState_def initialState_def)
  have fin: "updateCarMovement quietEnv turningIntoTree =
      turningIntoTree
        \<lparr>car := Some (carAt (vec 99.95 0.45 (- 2.8)) 0),
         speed := - 1.425,
         isVibrating := True,
         vibrationTime := 0,
         cameraPosition := vec 10 9.75 (- 19.7344),
         cameraLookAt := vec 100 0.5 7.656,
         orbitEnabled := False,
         orbitTarget := vec 0 0 0,
         boostParticles := []\<rparr>"
    using B by (simp add: f example_defs const_defs)
  show ?thesis
    by (intro conjI bcar bs bh bp bcp bcl bps bin breach fin)
qed

theorem collision_jitter_counterexample:
  "car turningRightIntoTree = Some (carAt (vec 100 0.5 (- 2.8)) 0.011875) \<and>
   isTurningRight turningRightIntoTree \<and> \<not> isTurningLeft turningRightIntoTree \<and>
   speed (updateSpeed quietEnv (carAt (vec 100 0.5 (- 2.8)) 0.011875) turningRightIntoTree)
     = 2.85 \<and>
   position (movedCar quietEnv (carAt (vec 100 0.5 (- 2.8)) 0.011875) turningRightIntoTree)
     = vec 100 0.5 (- 2.344) \<and>
   \<not> outOfBounds (vec 100 0.5 (- 2.344)) \<and>
   checkCollision (vec 100 0.5 (- 2.344)) (position treeA) \<and>
   car (updateCarMovement quietEnv turningRightIntoTree)
     = Some (carAt (vec 99.95 0.45 (- 2.8)) 0) \<and>
   vec 99.95 0.45 (- 2.8) \<noteq> vec 100 0.5 (- 2.8) \<and>
   (0 :: real) \<noteq> 0.011875 + turnSpeed * (\<bar>2.85\<bar> / maxSpeed)"
  by (simp add: turningRightIntoTree_def checkCollision_iff example_defs const_defs
      frame_defs Let_def power2_eq_square)

subsection \<open>The camera mode\<close>

lemma handleKeyDown_c:
  "stateOf (handleKeyDown ''c'' st) =
     (if isOrbitMode st then st\<lparr>isOrbitMode := False\<rparr>
      else case car st of
             None \<Rightarrow> st\<lparr>isOrbitMode := True\<rparr>
           | Some c \<Rightarrow>
               st\<lparr>isOrbitMode := True,
                  cameraPosition := add (position c) (chaseOffset (vy (rotation c))),
                  orbitTarget := position c\<rparr>)"
  by (simp add: handleKeyDown_def Let_def split: option.split)

lemma cameraPosition_after_frame:
  assumes car: "car st = Some c"
    and s1: "s1 = (if isAccelerating st
                      then min (speed st + acceleration) (currentMaxSpeed st)
                    else if isBraking st
                      then max (speed st - acceleration * 2) (- currentMaxSpeed st / 2)
                    else if \<bar>speed st\<bar> > 0.01 then speed st * 0.95 else 0)"
    and h1: "h1 = vy (rotation c)
                    + (if isTurningLeft st then turnSpeed * (\<bar>s1\<bar> / maxSpeed) else 0)
                    - (if isTurningRight st then turnSpeed * (\<bar>s1\<bar> / maxSpeed) else 0)"
    and p1: "p1 = (position c)\<lparr>vx := vx (position c) + sin h1 * (s1 * 0.16),
                                vz := vz (position c) + cos h1 * (s1 * 0.16)\<rparr>"
  shows "cameraPosition (updateCarMovement env st) =
           (if \<not> isOrbitMode st
            then lerp (cameraPosition st)
                   (add p1 (vec (- sin h1 * 15) 7 (- cos h1 * 15))) 0.1
            else orbitControlsUpdate env p1 (cameraPosition st))"
proof -
  note names = car s1 h1 p1 refl refl refl
  consider (out) "outOfBounds p1"
    | (hit) "\<not> outOfBounds p1"
        "\<exists>object\<in>set (objects st). checkCollision p1 (position object)"
    | (clear) "\<not> outOfBounds p1"
        "\<forall>object\<in>set (objects st). \<not> checkCollision p1 (position object)"
    by blast
  then show ?thesis
  proof cases
    case out
    show ?thesis
      by (subst respawn_state [OF names out]) simp
  next
    case hit
    show ?thesis
      by (subst hit_state [OF names hit]) simp
  next
    case clear
    show ?thesis
      by (subst no_hit_state [OF names clear]) simp
  qed
qed

text \<open>
  C9, as the code has it. The claim as stated fails: a double toggle restores the mode
  but not the camera, and the switch back to Chase recomputes nothing. What holds for
  the key handler: each press of \<open>c\<close> flips the mode flag between Chase and Orbit, so
  two presses restore the mode. The switch to Orbit, with the car loaded, puts the
  camera at the car position plus the chase offset \<open>(-15 sin h, 7, -15 cos h)\<close> for the
  heading \<open>h\<close> of the car and makes the car position the orbit target; it changes
  nothing else. The switch back to Chase changes the flag and nothing else: the camera
  stays where it is, and the next frame moves it a tenth of the way towards the chase
  position (interpolation factor 0.1). So two presses in a row from Chase, with the car
  loaded, leave the camera at the car position plus the chase offset, wherever it was
  before.
\<close>

theorem key_c_toggle:
  assumes s1: "s1 = (if isAccelerating st
                      then min (speed st + acceleration) (currentMaxSpeed st)
                    else if isBraking st
                      then max (speed st - acceleration * 2) (- currentMaxSpeed st / 2)
                    else if \<bar>speed st\<bar> > 0.01 then speed st * 0.95 else 0)"
    and h1: "h1 = vy (rotation c)
                    + (if isTurningLeft st then turnSpeed * (\<bar>s1\<bar> / maxSpeed) else 0)
                    - (if isTurningRight st then turnSpeed * (\<bar>s1\<bar> / maxSpeed) else 0)"
    and p1: "p1 = (position c)\<lparr>vx := vx (position c) + sin h1 * (s1 * 0.16),
                                vz := vz (position c) + cos h1 * (s1 * 0.16)\<rparr>"
  shows "isOrbitMode (stateOf (handleKeyDown ''c'' st)) = (\<not> isOrbitMode st) \<and>
         isOrbitMode (stateOf (handleKeyDown ''c'' (stateOf (handleKeyDown ''c'' st))))
           = isOrbitMode st \<and>
         (isOrbitMode st \<longrightarrow>
            handleKeyDown ''c'' st = Returned (st\<lparr>isOrbitMode := False\<rparr>)) \<and>
         (\<not> isOrbitMode st \<and> car st = None \<longrightarrow>
            handleKeyDown ''c'' st = TypeError (st\<lparr>isOrbitMode := True\<rparr>)) \<and>
         (\<not> isOrbitMode st \<and> car st = Some c \<longrightarrow>
            handleKeyDown ''c'' st =
              Returned
                (st\<lparr>isOrbitMode := True,
                    cameraPosition :=
                      add (position c)
                        (vec (- sin (vy (rotation c)) * 15) 7 (- cos (vy (rotation c)) * 15)),
                    orbitTarget := position c\<rparr>) \<and>
            stateOf (handleKeyDown ''c'' (stateOf (handleKeyDown ''c'' st))) =
              st\<lparr>cameraPosition :=
                   add (position c)
                     (vec (- sin (vy (rotation c)) * 15) 7 (- cos (vy (rotation c)) * 15)),
                 orbitTarget := position c\<rparr>) \<and>
         (isOrbitMode st \<and> car st = Some c \<longrightarrow>
            cameraPosition (stateOf (handleKeyDown ''c'' st)) = cameraPosition st \<and>
            cameraPosition (updateCarMovement env (stateOf (handleKeyDown ''c'' st))) =
              lerp (cameraPosition st)
                (add p1 (vec (- sin h1 * 15) 7 (- cos h1 * 15))) 0.1)"
proof -
  have flip: "isOrbitMode (stateOf (handleKeyDown ''c'' s)) = (\<not> isOrbitMode s)" for s
    by (simp add: handleKeyDown_c split: option.split)
  have twice: "isOrbitMode (stateOf (handleKeyDown ''c'' (stateOf (handleKeyDown ''c'' st))))
      = isOrbitMode st"
    by (simp only: flip simp_thms)
  have toChase: "handleKeyDown ''c'' st = Returned (st\<lparr>isOrbitMode := False\<rparr>)"
    if "isOrbitMode st"
    using that by (simp add: handleKeyDown_def Let_def)
  have raise: "handleKeyDown ''c'' st = TypeError (st\<lparr>isOrbitMode := True\<rparr>)"
    if "\<not> isOrbitMode st \<and> car st = None"
    using that by (simp add: handleKeyDown_def Let_def)
  have toOrbit: "handleKeyDown ''c'' st =
        Returned
          (st\<lparr>isOrbitMode := True,
              cameraPosition :=
                add (position c)
                  (vec (- sin (vy (rotation c)) * 15) 7 (- cos (vy (rotation c)) * 15)),
              orbitTarget := position c\<rparr>) \<and>
      stateOf (handleKeyDown ''c'' (stateOf (handleKeyDown ''c'' st))) =
        st\<lparr>cameraPosition :=
             add (position c)
               (vec (- sin (vy (rotation c)) * 15) 7 (- cos (vy (rotation c)) * 15)),
           orbitTarget := position c\<rparr>"
    if "\<not> isOrbitMode st \<and> car st = Some c"
    using that by (simp add: handleKeyDown_def Let_def chaseOffset_def)
  have next_frame: "cameraPosition (stateOf (handleKeyDown ''c'' st)) = cameraPosition st \<and>
      cameraPosition (updateCarMovement env (stateOf (handleKeyDown ''c'' st))) =
        lerp (cameraPosition st)
          (add p1 (vec (- sin h1 * 15) 7 (- cos h1 * 15))) 0.1"
    if o: "isOrbitMode st \<and> car st = Some c"
  proof -
    let ?st = "st\<lparr>isOrbitMode := False\<rparr>"
    have t: "stateOf (handleKeyDown ''c'' st) = ?st"
      using o by (simp add: toChase)
    have "cameraPosition (updateCarMovement env ?st) =
        (if \<not> isOrbitMode ?st
         then lerp (cameraPosition ?st)
                (add p1 (vec (- sin h1 * 15) 7 (- cos h1 * 15))) 0.1
         else orbitControlsUpdate env p1 (cameraPosition ?st))"
      by (rule cameraPosition_after_frame)
        (use o in \<open>simp_all add: s1 h1 p1 currentMaxSpeed_def\<close>)
    then show ?thesis
      unfolding t by simp
  qed
  from flip [of st] twice toChase raise toOrbit next_frame show ?thesis
    by blast
qed

theorem key_c_toggle_witness:
  "(0 = (if isAccelerating justLoaded
            then min (speed justLoaded + acceleration) (currentMaxSpeed justLoaded)
          else if isBraking justLoaded
            then max (speed justLoaded - acceleration * 2) (- currentMaxSpeed justLoaded / 2)
          else if \<bar>speed justLoaded\<bar> > 0.01 then speed justLoaded * 0.95 else 0)) \<and>
   (0 = vy (rotation (loadedCar))
          + (if isTurningLeft justLoaded then turnSpeed * (\<bar>0\<bar> / maxSpeed) else 0)
          - (if isTurningRight justLoaded then turnSpeed * (\<bar>0\<bar> / maxSpeed) else 0)) \<and>
   (vec 0 0.5 0 = (position (loadedCar))\<lparr>vx := vx (position (loadedCar)) + sin 0 * (0 * 0.16),
          vz := vz (position (loadedCar)) + cos 0 * (0 * 0.16)\<rparr>) \<and>
   \<not> isOrbitMode justLoaded \<and> car justLoaded = Some loadedCar \<and>
   handleKeyDown ''c'' justLoaded =
     Returned (justLoaded\<lparr>isOrbitMode := True, cameraPosition := vec 0 7.5 (- 15),
                          orbitTarget := vec 0 0.5 0\<rparr>) \<and>
   stateOf (handleKeyDown ''c'' (stateOf (handleKeyDown ''c'' justLoaded))) =
     justLoaded\<lparr>cameraPosition := vec 0 7.5 (- 15), orbitTarget := vec 0 0.5 0\<rparr> \<and>
   (0 = (if isAccelerating orbiting
            then min (speed orbiting + acceleration) (currentMaxSpeed orbiting)
          else if isBraking orbiting
            then max (speed orbiting - acceleration * 2) (- currentMaxSpeed orbiting / 2)
          else if \<bar>speed orbiting\<bar> > 0.01 then speed orbiting * 0.95 else 0)) \<and>
   (1 = vy (rotation (carAt (vec 10 0.5 20) 1))
          + (if isTurningLeft orbiting then turnSpeed * (\<bar>0\<bar> / maxSpeed) else 0)
          - (if isTurningRight orbiting then turnSpeed * (\<bar>0\<bar> / maxSpeed) else 0)) \<and>
   (vec 10 0.5 20 = (position (carAt (vec 10 0.5 20) 1))\<lparr>vx := vx (position (carAt (vec 10 0.5 20) 1)) + sin 1 * (0 * 0.16),
          vz := vz (position (carAt (vec 10 0.5 20) 1)) + cos 1 * (0 * 0.16)\<rparr>) \<and>
   isOrbitMode orbiting \<and> car orbiting = Some (carAt (vec 10 0.5 20) 1) \<and>
   handleKeyDown ''c'' orbiting = Returned (orbiting\<lparr>isOrbitMode := False\<rparr>) \<and>
   cameraPosition (stateOf (handleKeyDown ''c'' orbiting)) = vec 5 5 5 \<and>
   cameraPosition (updateCarMovement quietEnv (stateOf (handleKeyDown ''c'' orbiting))) =
     lerp (vec 5 5 5) (add (vec 10 0.5 20) (vec (- sin 1 * 15) 7 (- cos 1 * 15))) 0.1"
proof -
  have js: "0 = (if isAccelerating justLoaded
                then min (speed justLoaded + acceleration) (currentMaxSpeed justLoaded)
              else if isBraking justLoaded
                then max (speed justLoaded - acceleration * 2) (- currentMaxSpeed justLoaded / 2)
              else if \<bar>speed justLoaded\<bar> > 0.01 then speed justLoaded * 0.95 else 0)"
    by (simp add: justLoaded_def example_defs const_defs currentMaxSpeed_def)
  have jh: "0 = vy (rotation (loadedCar))
              + (if isTurningLeft justLoaded then turnSpeed * (\<bar>0\<bar> / maxSpeed) else 0)
              - (if isTurningRight justLoaded then turnSpeed * (\<bar>0\<bar> / maxSpeed) else 0)"
    by (simp add: justLoaded_def example_defs const_defs currentMaxSpeed_def)
  have jp: "vec 0 0.5 0 = (position (loadedCar))\<lparr>vx := vx (position (loadedCar)) + sin 0 * (0 * 0.16),
              vz := vz (position (loadedCar)) + cos 0 * (0 * 0.16)\<rparr>"
    by (simp add: justLoaded_def example_defs const_defs currentMaxSpeed_def)
  have jf: "\<not> isOrbitMode justLoaded \<and> car justLoaded = Some loadedCar"
    by (simp add: justLoaded_def carLoaded_def initialState_def)
  note T = key_c_toggle [OF js jh jp, of quietEnv]
  from T jf have j1: "handleKeyDown ''c'' justLoaded =
      Returned
        (justLoaded\<lparr>isOrbitMode := True,
            cameraPosition :=
              add (position loadedCar)
                (vec (- sin (vy (rotation loadedCar)) * 15) 7
                     (- cos (vy (rotation loadedCar)) * 15)),
            orbitTarget := position loadedCar\<rparr>)"
    by blast
  from T jf have j2: "stateOf (handleKeyDown ''c'' (stateOf (handleKeyDown ''c'' justLoaded))) =
      justLoaded\<lparr>cameraPosition :=
           add (position loadedCar)
             (vec (- sin (vy (rotation loadedCar)) * 15) 7
                  (- cos (vy (rotation loadedCar)) * 15)),
         orbitTarget := position loadedCar\<rparr>"
    by blast
  have j1e: "handleKeyDown ''c'' justLoaded =
      Returned (justLoaded\<lparr>isOrbitMode := True, cameraPosition := vec 0 7.5 (- 15),
                           orbitTarget := vec 0 0.5 0\<rparr>)"
    using j1 by (simp add: example_defs)
  have j2e: "stateOf (handleKeyDown ''c'' (stateOf (handleKeyDown ''c'' justLoaded))) =
      justLoaded\<lparr>cameraPosition := vec 0 7.5 (- 15), orbitTarget := vec 0 0.5 0\<rparr>"
    using j2 by (simp add: example_defs)
  have os: "0 = (if isAccelerating orbiting
                then min (speed orbiting + acceleration) (currentMaxSpeed orbiting)
              else if isBraking orbiting
                then max (speed orbiting - acceleration * 2) (- currentMaxSpeed orbiting / 2)
              else if \<bar>speed orbiting\<bar> > 0.01 then speed orbiting * 0.95 else 0)"
    by (simp add: orbiting_def example_defs const_defs currentMaxSpeed_def)
  have oh: "1 = vy (rotation (carAt (vec 10 0.5 20) 1))
              + (if isTurningLeft orbiting then turnSpeed * (\<bar>0\<bar> / maxSpeed) else 0)
              - (if isTurningRight orbiting then turnSpeed * (\<bar>0\<bar> / maxSpeed) else 0)"
    by (simp add: orbiting_def example_defs const_defs currentMaxSpeed_def)
  have op: "vec 10 0.5 20 = (position (carAt (vec 10 0.5 20) 1))\<lparr>vx := vx (position (carAt (vec 10 0.5 20) 1)) + sin 1 * (0 * 0.16),
              vz := vz (position (carAt (vec 10 0.5 20) 1)) + cos 1 * (0 * 0.16)\<rparr>"
    by (simp add: orbiting_def example_defs const_defs currentMaxSpeed_def)
  have of: "isOrbitMode orbiting \<and> car orbiting = Some (carAt (vec 10 0.5 20) 1)"
    by (simp add: orbiting_def drivingState_def initialState_def)
  have oc: "cameraPosition orbiting = vec 5 5 5"
    by (simp add: orbiting_def)
  note S = key_c_toggle [OF os oh op, of quietEnv]
  from S of have o1: "handleKeyDown ''c'' orbiting = Returned (orbiting\<lparr>isOrbitMode := False\<rparr>)"
    by blast
  from S of have o2: "cameraPosition (stateOf (handleKeyDown ''c'' orbiting))
      = cameraPosition orbiting"
    "cameraPosition (updateCarMovement quietEnv (stateOf (handleKeyDown ''c'' orbiting))) =
       lerp (cameraPosition orbiting)
         (add (vec 10 0.5 20) (vec (- sin 1 * 15) 7 (- cos 1 * 15))) 0.1"
    by blast+
  show ?thesis
    using jf of by (intro conjI js jh jp j1e j2e os oh op o1 o2 [unfolded oc]) blast+
qed

theorem double_toggle_counterexample:
  "car justLoaded = Some loadedCar \<and> \<not> isOrbitMode justLoaded \<and>
   cameraPosition justLoaded = vec 0 10 (- 20) \<and>
   \<not> isOrbitMode (stateOf (handleKeyDown ''c'' (stateOf (handleKeyDown ''c'' justLoaded)))) \<and>
   cameraPosition (stateOf (handleKeyDown ''c'' (stateOf (handleKeyDown ''c'' justLoaded))))
     = vec 0 7.5 (- 15) \<and>
   vec 0 7.5 (- 15) \<noteq> vec 0 10 (- 20) \<and>
   cameraPosition (updateCarMovement quietEnv justLoaded) = vec 0 9.75 (- 19.5) \<and>
   cameraPosition (updateCarMovement quietEnv
       (stateOf (handleKeyDown ''c'' (stateOf (handleKeyDown ''c'' justLoaded)))))
     = vec 0 7.5 (- 15) \<and>
   car orbiting = Some (carAt (vec 10 0.5 20) 1) \<and> isOrbitMode orbiting \<and>
   cameraPosition orbiting = vec 5 5 5 \<and>
   \<not> isOrbitMode (stateOf (handleKeyDown ''c'' orbiting)) \<and>
   cameraPosition (stateOf (handleKeyDown ''c'' orbiting)) = vec 5 5 5 \<and>
   vy (add (position (carAt (vec 10 0.5 20) 1)) (chaseOffset 1)) = 7.5 \<and>
   vy (cameraPosition (stateOf (handleKeyDown ''c'' orbiting)))
     \<noteq> vy (add (position (carAt (vec 10 0.5 20) 1)) (chaseOffset 1))"
  by (simp add: justLoaded_def orbiting_def handleKeyDown_c checkCollision_iff
      example_defs const_defs frame_defs Let_def power2_eq_square)

end
